theory Spec2Isabelle
  imports Complex_Main "HOL-Library.AList"
begin

section \<open>JavaScript values\<close>

text \<open>
  The panel and the bridge exchange dynamically typed values: a selection payload is probed
  for its shape (\<open>payload.elements\<close>, \<open>Array.isArray\<close>, truthiness) before it is used.
  The model therefore keeps the values dynamic. A number is a finite rational or one of
  the three non-finite values; the rounding of binary floating point is not modelled, so
  \<open>x * 2\<close> is the exact double of \<open>x\<close>. Objects are association lists in property
  order; a value is a finite tree, so an object that contains itself is outside the model.
  \<open>Fn\<close> is a function. \<open>Elem\<close> is an object that has a
  \<open>getBoundingClientRect\<close> function: an element node of the host document, with its
  tag name, id, class list, the \<open>width\<close> its bounding rectangle reports, whether its
  computed style has a background image, and the first descendant that matches the media
  selector; or \<open>RectOnly\<close>, an object with that function that is no element node
  (no \<open>nodeType\<close> of an element, no tag name, no id).
\<close>

datatype jsnum = Fin rat | PosInf | NegInf | NaN

datatype jsval =
    Undefined
  | Null
  | Bool bool
  | Num jsnum
  | Str string
  | Arr "jsval list"
  | Obj "(string \<times> jsval) list"
  | Fn nat
  | Elem dom
and dom =
    ElementNode (domTagName: string) (domId: string) (domClassList: "string list")
      (rectWidth: jsval) (hasBackground: bool) (nestedMedia: "dom option")
  | RectOnly (rectWidth: jsval)

text \<open>Truthiness, as \<open>Boolean(v)\<close>, \<open>!v\<close>, \<open>a || b\<close> and \<open>a && b\<close> read it.\<close>

fun truthy :: "jsval \<Rightarrow> bool" where
  "truthy Undefined = False"
| "truthy Null = False"
| "truthy (Bool b) = b"
| "truthy (Num (Fin q)) = (q \<noteq> 0)"
| "truthy (Num NaN) = False"
| "truthy (Num PosInf) = True"
| "truthy (Num NegInf) = True"
| "truthy (Str s) = (s \<noteq> [])"
| "truthy (Arr xs) = True"
| "truthy (Obj kvs) = True"
| "truthy (Fn f) = True"
| "truthy (Elem d) = True"

fun nullish :: "jsval \<Rightarrow> bool" where
  "nullish Undefined = True"
| "nullish Null = True"
| "nullish v = False"

text \<open>\<open>a ?? b\<close> and \<open>a || b\<close>.\<close>

definition coalesce :: "jsval \<Rightarrow> jsval \<Rightarrow> jsval" where
  "coalesce a b = (if nullish a then b else a)"

definition js_or :: "jsval \<Rightarrow> jsval \<Rightarrow> jsval" where
  "js_or a b = (if truthy a then a else b)"

text \<open>
  Property access \<open>v.k\<close> on a value that is not null or undefined (the callers below
  guard every access, by truthiness or by \<open>?.\<close>). A missing property reads as
  undefined. A document node exposes its \<open>id\<close> and \<open>tagName\<close>.
\<close>

fun getProp :: "jsval \<Rightarrow> string \<Rightarrow> jsval" where
  "getProp (Obj kvs) k = (case map_of kvs k of None \<Rightarrow> Undefined | Some v \<Rightarrow> v)"
| "getProp (Elem (ElementNode tag ident classes w bg nested)) k =
     (if k = ''id'' then Str ident else if k = ''tagName'' then Str tag else Undefined)"
| "getProp v k = Undefined"

text \<open>Optional chaining \<open>v?.k\<close>.\<close>

definition optProp :: "jsval \<Rightarrow> string \<Rightarrow> jsval" where
  "optProp v k = (if nullish v then Undefined else getProp v k)"

fun isArray :: "jsval \<Rightarrow> bool" where
  "isArray (Arr xs) = True"
| "isArray v = False"

text \<open>\<open>typeof v === 'object'\<close>; null is an object for \<open>typeof\<close>.\<close>

fun typeofObject :: "jsval \<Rightarrow> bool" where
  "typeofObject Null = True"
| "typeofObject (Arr xs) = True"
| "typeofObject (Obj kvs) = True"
| "typeofObject (Elem d) = True"
| "typeofObject v = False"

fun arrItems :: "jsval \<Rightarrow> jsval list" where
  "arrItems (Arr xs) = xs"
| "arrItems v = []"

text \<open>\<open>xs.find(p)\<close>: the first item that satisfies \<open>p\<close>, or undefined.\<close>

definition jsFind :: "(jsval \<Rightarrow> bool) \<Rightarrow> jsval list \<Rightarrow> jsval" where
  "jsFind p xs = (case List.find p xs of None \<Rightarrow> Undefined | Some x \<Rightarrow> x)"

text \<open>\<open>xs[0]\<close> on an array: undefined when the array is empty.\<close>

definition firstItem :: "jsval list \<Rightarrow> jsval" where
  "firstItem xs = (case xs of [] \<Rightarrow> Undefined | x # _ \<Rightarrow> x)"

text \<open>
  Writing a property: an object literal lists its properties in order, a later
  occurrence of a key replaces the value and keeps the place. Assigning to a property
  of something that is no plain object is not modelled as a change.
\<close>

fun setProp :: "string \<Rightarrow> jsval \<Rightarrow> jsval \<Rightarrow> jsval" where
  "setProp k v (Obj kvs) = Obj (AList.update k v kvs)"
| "setProp k v other = other"

text \<open>\<open>s.toLowerCase()\<close> on the ASCII letters.\<close>

definition lowerChar :: "char \<Rightarrow> char" where
  "lowerChar c = (let n = (of_char c :: nat) in if 65 \<le> n \<and> n \<le> 90 then char_of (n + 32) else c)"

definition toLowerCase :: "string \<Rightarrow> string" where
  "toLowerCase s = map lowerChar s"

text \<open>\<open>s.endsWith(t)\<close>.\<close>

definition endsWith :: "string \<Rightarrow> string \<Rightarrow> bool" where
  "endsWith s t = (length t \<le> length s \<and> drop (length s - length t) s = t)"

text \<open>A positive finite number: what a width value is meant to be.\<close>

fun positiveFinite :: "jsval \<Rightarrow> bool" where
  "positiveFinite (Num (Fin q)) = (0 < q)"
| "positiveFinite v = False"

text \<open>\<open>Math.round\<close> on a finite number rounds half up.\<close>

definition mathRound :: "rat \<Rightarrow> int" where
  "mathRound q = \<lfloor>q + 1 / 2\<rfloor>"

section \<open>Panel: measured widths\<close>

text \<open>
  \<open>Number.parseFloat\<close> is the language's own function. The empty string has no
  numeric prefix and parses to NaN; what any other string parses to is left to the
  parameter \<open>pf\<close>.
\<close>

definition parseFloat :: "(string \<Rightarrow> jsnum) \<Rightarrow> string \<Rightarrow> jsnum" where
  "parseFloat pf s = (if s = [] then NaN else pf s)"

text \<open>\<open>toFiniteNumber\<close> of \<open>panel.js\<close>.\<close>

fun toFiniteNumber :: "(string \<Rightarrow> jsnum) \<Rightarrow> jsval \<Rightarrow> jsval" where
  "toFiniteNumber pf (Num (Fin q)) = (if 0 < q then Num (Fin q) else Null)"
| "toFiniteNumber pf (Str s) =
     (case parseFloat pf s of Fin q \<Rightarrow> (if 0 < q then Num (Fin q) else Null) | _ \<Rightarrow> Null)"
| "toFiniteNumber pf v = Null"

text \<open>\<open>deriveMeasuredWidths\<close> of \<open>panel.js\<close>: null, or an object with the two slots.\<close>

definition deriveMeasuredWidths :: "(string \<Rightarrow> jsnum) \<Rightarrow> jsval \<Rightarrow> jsval" where
  "deriveMeasuredWidths pf selection =
     (if \<not> truthy selection then Null
      else
        let widths = getProp selection ''widths'' in
        if truthy widths \<and> (truthy (getProp widths ''desktop'') \<or> truthy (getProp widths ''mobile''))
        then Obj [
          (''desktop'', coalesce (toFiniteNumber pf (getProp widths ''desktop''))
                                 (toFiniteNumber pf (getProp widths ''mobile''))),
          (''mobile'', coalesce (toFiniteNumber pf (getProp widths ''mobile''))
                                (toFiniteNumber pf (getProp widths ''desktop'')))]
        else
          let computedDesktop =
                coalesce (toFiniteNumber pf (getProp selection ''computedWidthDesktop''))
                  (toFiniteNumber pf (optProp (getProp selection ''computedWidths'') ''desktop''));
              computedMobile =
                coalesce (toFiniteNumber pf (getProp selection ''computedWidthMobile''))
                  (toFiniteNumber pf (optProp (getProp selection ''computedWidths'') ''mobile''))
          in
          if \<not> truthy computedDesktop \<and> \<not> truthy computedMobile then Null
          else Obj [
            (''desktop'', coalesce (coalesce computedDesktop computedMobile) Null),
            (''mobile'', coalesce (coalesce computedMobile computedDesktop) Null)])"


text \<open>
  No desktop and no mobile width is present in the descriptor: neither in the
  host-supplied widths nor in the computed ones (the nested pair and its two flattened
  copies).
\<close>

definition noWidthPresent :: "jsval \<Rightarrow> bool" where
  "noWidthPresent selection =
     (nullish (getProp (getProp selection ''widths'') ''desktop'') \<and>
      nullish (getProp (getProp selection ''widths'') ''mobile'') \<and>
      nullish (getProp selection ''computedWidthDesktop'') \<and>
      nullish (getProp (getProp selection ''computedWidths'') ''desktop'') \<and>
      nullish (getProp selection ''computedWidthMobile'') \<and>
      nullish (getProp (getProp selection ''computedWidths'') ''mobile''))"

section \<open>Panel: normalizing a received selection\<close>

text \<open>
  \<open>normalizeIncomingSelection\<close> of \<open>panel.js\<close>. The result is null or a state
  object with \<open>elements\<close>, \<open>primary\<close>, \<open>devMock\<close> and \<open>reason\<close>. The function
  calls itself on \<open>payload.element\<close>, a part of the payload.
\<close>

lemma size_map_of_less: "map_of kvs k = Some v \<Longrightarrow> size v < size (Obj kvs)"
  by (induction kvs) (auto split: if_splits)

lemma size_getProp_less: "truthy (getProp payload k) \<Longrightarrow> size (getProp payload k) < size payload"
  by (cases "(payload, k)" rule: getProp.cases)
     (auto split: option.splits dest: size_map_of_less)

function normalizeIncomingSelection :: "jsval \<Rightarrow> jsval" where
  "normalizeIncomingSelection payload =
     (if \<not> truthy payload then Null
      else if isArray payload then
        Obj [(''elements'', Arr (filter truthy (arrItems payload))),
             (''primary'', coalesce (jsFind truthy (arrItems payload)) Null),
             (''devMock'', Bool (truthy (jsFind (\<lambda>item. truthy (optProp item ''devMock''))
                                     (arrItems payload)))),
             (''reason'', Null)]
      else if truthy (getProp payload ''elements'') \<and> truthy (getProp payload ''primary'') then
        let elements =
              (if isArray (getProp payload ''elements'')
               then filter truthy (arrItems (getProp payload ''elements''))
               else filter truthy [getProp payload ''elements'']);
            primary = coalesce (getProp payload ''primary'') (coalesce (firstItem elements) Null)
        in Obj [(''elements'', Arr elements),
                (''primary'', primary),
                (''devMock'', Bool (truthy (js_or (getProp payload ''devMock'')
                                              (optProp primary ''devMock'')))),
                (''reason'', coalesce (getProp payload ''reason'')
                               (coalesce (getProp payload ''devMockReason'')
                                  (coalesce (optProp primary ''reason'') Null)))]
      else if truthy (getProp payload ''element'') then
        normalizeIncomingSelection (getProp payload ''element'')
      else
        let element = coalesce (getProp payload ''primary'') payload in
        if \<not> truthy element then Null
        else Obj [(''elements'', Arr [element]),
                  (''primary'', element),
                  (''devMock'', Bool (truthy (js_or (getProp element ''devMock'')
                                                (getProp payload ''devMock'')))),
                  (''reason'', coalesce (getProp payload ''reason'')
                                 (coalesce (getProp payload ''devMockReason'')
                                    (coalesce (getProp element ''reason'') Null)))])"
  by pat_completeness auto
termination
  by (relation "measure size") (auto dest: size_getProp_less)

text \<open>
  The invariant of a selection state: \<open>primary\<close> is absent (null or undefined) or it is
  \<open>elements[0]\<close>; with no elements it is absent.
\<close>

definition primaryIsFirst :: "jsval \<Rightarrow> bool" where
  "primaryIsFirst state =
     (let primary = getProp state ''primary''; elements = arrItems (getProp state ''elements'') in
      isArray (getProp state ''elements'') \<and>
      (nullish primary \<or> (elements \<noteq> [] \<and> primary = firstItem elements)))"

section \<open>Panel: state and display\<close>

text \<open>
  The variables of \<open>panel.js\<close> and what the page shows. An element of the page that the
  script guards against (\<open>if (!ui.status) return\<close>, \<open>ui.resultsCard?.\<close>) is optional,
  \<open>None\<close> when the page has no such element. The three size fields and the explanation
  are written without a guard. The label of the selected element is kept in its parts:
  the lower-cased tag, the id that follows \<open>#\<close> when it is truthy, and the number of
  selected elements when there is more than one. The debug box shows the JSON text of a
  value; the model keeps the value. \<open>Px n\<close> is the text of the integer \<open>n\<close> followed
  by \<open>px\<close>, \<open>NoPixels\<close> is \<open>--\<close>.
\<close>

datatype pixel_text = Px int | NoPixels

datatype label_text = PlainLabel string | ElementLabel string jsval "nat option"

datatype debug_text = NoSelectionData | JsonOf jsval

datatype button_text = Analyzing | AnalyzeSelection

datatype msg_source = Source (windowId: nat) (canPostMessage: bool)

record panel =
  currentSelectionState :: jsval
  currentSelected :: jsval
  devMockSelectionActive :: bool
  analyzeProcessing :: bool
  analyzeSelectionReady :: bool
  designerMessageWindow :: "msg_source option"
  trustedDesignerOrigin :: jsval
  designerOriginConfirmed :: bool
  uiStatus :: "(string \<times> string) option"
  uiSelectedLabel :: "label_text option"
  uiSelectionDebug :: "debug_text option"
  uiResultsHidden :: "bool option"
  uiAnalyzeButton :: "(bool \<times> button_text) option"
  uiDevBadge :: "(string \<times> bool) option"
  uiUniversalSize :: pixel_text
  uiDesktopSize :: pixel_text
  uiMobileSize :: pixel_text
  uiExplanation :: jsval
  requests :: "jsval list"

text \<open>
  What the panel's environment fixes: whether it runs in a development environment, and
  the host name \<open>new URL(origin).hostname\<close> reads from an origin (\<open>None\<close> when the
  constructor throws).
\<close>

record config =
  DEV_ENVIRONMENT :: bool
  urlHostname :: "jsval \<Rightarrow> string option"

definition toneColor :: "string \<Rightarrow> string" where
  "toneColor tone =
     (if tone = ''error'' then ''#f87171''
      else if tone = ''warning'' then ''#facc15''
      else ''#8b949e'')"

definition setStatus :: "string \<Rightarrow> string \<Rightarrow> panel \<Rightarrow> panel" where
  "setStatus message tone st =
     (case uiStatus st of
        None \<Rightarrow> st
      | Some old \<Rightarrow> st\<lparr>uiStatus := Some (message, toneColor tone)\<rparr>)"

definition syncAnalyzeButtonState :: "panel \<Rightarrow> panel" where
  "syncAnalyzeButtonState st =
     (case uiAnalyzeButton st of
        None \<Rightarrow> st
      | Some old \<Rightarrow>
          st\<lparr>uiAnalyzeButton :=
               Some (analyzeProcessing st \<or> \<not> analyzeSelectionReady st,
                     if analyzeProcessing st then Analyzing else AnalyzeSelection)\<rparr>)"

definition setAnalyzeReady :: "bool \<Rightarrow> panel \<Rightarrow> panel" where
  "setAnalyzeReady isReady st = syncAnalyzeButtonState (st\<lparr>analyzeSelectionReady := isReady\<rparr>)"

definition setAnalyzeProcessing :: "bool \<Rightarrow> panel \<Rightarrow> panel" where
  "setAnalyzeProcessing isProcessing st =
     syncAnalyzeButtonState (st\<lparr>analyzeProcessing := isProcessing\<rparr>)"

definition hideResults :: "panel \<Rightarrow> panel" where
  "hideResults st =
     (case uiResultsHidden st of None \<Rightarrow> st | Some old \<Rightarrow> st\<lparr>uiResultsHidden := Some True\<rparr>)"

definition showResultsCard :: "panel \<Rightarrow> panel" where
  "showResultsCard st =
     (case uiResultsHidden st of None \<Rightarrow> st | Some old \<Rightarrow> st\<lparr>uiResultsHidden := Some False\<rparr>)"

definition updateDevBadge :: "config \<Rightarrow> panel \<Rightarrow> panel" where
  "updateDevBadge cfg st =
     (case uiDevBadge st of
        None \<Rightarrow> st
      | Some (text, hidden) \<Rightarrow>
          if \<not> DEV_ENVIRONMENT cfg then st\<lparr>uiDevBadge := Some (text, True)\<rparr>
          else st\<lparr>uiDevBadge := Some (''DEV Mock Mode Active'', False)\<rparr>)"

text \<open>
  \<open>updateSelectedLabel\<close>. For an object, \<open>(metadata.tagName || 'element').toLowerCase()\<close>
  throws a TypeError when the tag name is truthy and no string (\<open>labelThrows\<close>): the
  result is \<open>None\<close> then, and the caller stops where it is.
\<close>

fun isString :: "jsval \<Rightarrow> bool" where
  "isString (Str s) = True"
| "isString v = False"

fun stringOf :: "jsval \<Rightarrow> string" where
  "stringOf (Str s) = s"
| "stringOf v = []"

definition labelThrows :: "jsval \<Rightarrow> bool" where
  "labelThrows metadata =
     (\<not> isString metadata \<and> truthy metadata \<and> typeofObject metadata \<and>
      \<not> isString (js_or (getProp metadata ''tagName'') (Str ''element'')))"

definition updateSelectedLabel :: "jsval \<Rightarrow> panel \<Rightarrow> panel option" where
  "updateSelectedLabel metadata st =
     (case uiSelectedLabel st of
        None \<Rightarrow> Some st
      | Some old \<Rightarrow>
          if isString metadata then
            Some (st\<lparr>uiSelectedLabel := Some (PlainLabel (stringOf metadata))\<rparr>)
          else if truthy metadata \<and> typeofObject metadata then
            if labelThrows metadata then None
            else
              let tag = stringOf (js_or (getProp metadata ''tagName'') (Str ''element''));
                  selectionCount =
                    length (arrItems (optProp (currentSelectionState st) ''elements''))
              in Some (st\<lparr>uiSelectedLabel :=
                   Some (ElementLabel (toLowerCase tag) (getProp metadata ''id'')
                           (if 1 < selectionCount then Some selectionCount else None))\<rparr>)
          else Some (st\<lparr>uiSelectedLabel :=
                 Some (PlainLabel ''Waiting for a Designer selection...'')\<rparr>))"

text \<open>The value whose JSON text \<open>updateSelectionDebug\<close> shows for a selection.\<close>

definition debugPayload :: "jsval \<Rightarrow> jsval" where
  "debugPayload selection =
     Obj [(''tagName'', coalesce (getProp selection ''tagName'') Null),
          (''id'', coalesce (getProp selection ''id'') Null),
          (''label'', coalesce (getProp selection ''label'') Null),
          (''selector'', coalesce (getProp selection ''selector'') Null),
          (''widths'', coalesce (getProp selection ''widths'') Null),
          (''devMock'', Bool (truthy (getProp selection ''devMock''))),
          (''reason'', coalesce (getProp selection ''reason'')
                         (coalesce (getProp selection ''devMockReason'') Null)),
          (''computedWidths'', coalesce (getProp selection ''computedWidths'')
             (Obj [(''desktop'', coalesce (getProp selection ''computedWidthDesktop'') Null),
                   (''mobile'', coalesce (getProp selection ''computedWidthMobile'') Null)]))]"

definition updateSelectionDebug :: "jsval \<Rightarrow> panel \<Rightarrow> panel" where
  "updateSelectionDebug selection st =
     (case uiSelectionDebug st of
        None \<Rightarrow> st
      | Some old \<Rightarrow>
          if \<not> truthy selection then st\<lparr>uiSelectionDebug := Some NoSelectionData\<rparr>
          else st\<lparr>uiSelectionDebug := Some (JsonOf (debugPayload selection))\<rparr>)"

definition updateSelectionUI :: "(string \<Rightarrow> jsnum) \<Rightarrow> panel \<Rightarrow> panel" where
  "updateSelectionUI pf st0 =
     (let hasSelection = truthy (currentSelected st0);
          isDevMock = truthy (optProp (currentSelectionState st0) ''devMock'');
          st = setAnalyzeReady hasSelection st0
      in
      if \<not> hasSelection then
        (case updateSelectedLabel (Str ''Waiting for a Designer selection...'') st of
           None \<Rightarrow> st
         | Some st1 \<Rightarrow>
             setStatus ''Waiting for a Designer selection...'' ''info''
               (hideResults (updateSelectionDebug Null st1)))
      else
        (case updateSelectedLabel (currentSelected st) st of
           None \<Rightarrow> st
         | Some st1 \<Rightarrow>
             let st2 = updateSelectionDebug (currentSelected st1) st1;
                 measuredWidths = deriveMeasuredWidths pf (currentSelected st2)
             in
             if \<not> truthy measuredWidths then
               setStatus ''Waiting for rendered widths from the Designer runtime...'' ''warning'' st2
             else if isDevMock then
               setStatus ''DEV Mock Mode Active. Click Analyze to simulate results.'' ''info''
                 (hideResults st2)
             else if truthy (getProp (currentSelected st2) ''widths'') then
               setStatus ''Ready to analyze.'' ''info'' st2
             else
               setStatus ''Ready (using measured width from Designer viewport).'' ''info'' st2))"

definition applySelectionState :: "config \<Rightarrow> (string \<Rightarrow> jsnum) \<Rightarrow> jsval \<Rightarrow> panel \<Rightarrow> panel" where
  "applySelectionState cfg pf payload st =
     (let nextState = normalizeIncomingSelection payload in
      updateSelectionUI pf
        (updateDevBadge cfg
           (st\<lparr>currentSelectionState := nextState,
               currentSelected := coalesce (optProp nextState ''primary'') Null,
               devMockSelectionActive := truthy (optProp nextState ''devMock'')\<rparr>)))"

section \<open>Panel: messages from the Designer\<close>

text \<open>
  A message event with its origin (a string, empty when the event names none), its source
  window (if any) and its data.
\<close>

record message_event =
  evOrigin :: string
  evSource :: "msg_source option"
  evData :: jsval

definition WEBFLOW_DOMAIN_SUFFIX :: string where
  "WEBFLOW_DOMAIN_SUFFIX = ''.webflow.com''"

definition isAllowedHostOrigin :: "config \<Rightarrow> jsval \<Rightarrow> bool" where
  "isAllowedHostOrigin cfg origin =
     (if \<not> truthy origin then False
      else if DEV_ENVIRONMENT cfg then True
      else (case urlHostname cfg origin of
              None \<Rightarrow> False
            | Some hostname \<Rightarrow>
                hostname = ''webflow.com'' \<or> endsWith hostname WEBFLOW_DOMAIN_SUFFIX))"

text \<open>
  \<open>isTrustedDesignerMessage\<close>: the verdict and the panel's variables after the call.
  The origin is \<open>event.origin || event.data?.origin || null\<close>.
\<close>

definition eventOrigin :: "message_event \<Rightarrow> jsval" where
  "eventOrigin event =
     js_or (Str (evOrigin event)) (js_or (optProp (evData event) ''origin'') Null)"

definition isTrustedDesignerMessage :: "config \<Rightarrow> message_event \<Rightarrow> panel \<Rightarrow> bool \<times> panel" where
  "isTrustedDesignerMessage cfg event st =
     (let origin = eventOrigin event in
      if \<not> truthy origin \<or> \<not> isAllowedHostOrigin cfg origin then (False, st)
      else
        let st1 = (if \<not> designerOriginConfirmed st
                   then st\<lparr>trustedDesignerOrigin := origin, designerOriginConfirmed := True\<rparr>
                   else st)
        in
        if trustedDesignerOrigin st1 \<noteq> origin then (False, st1)
        else
          (case (designerMessageWindow st1, evSource event) of
             (Some w, Some s) \<Rightarrow> if s \<noteq> w then (False, st1) else (True, st1)
           | (None, Some s) \<Rightarrow>
               if canPostMessage s then (True, st1\<lparr>designerMessageWindow := Some s\<rparr>)
               else (True, st1)
           | (_, None) \<Rightarrow> (True, st1)))"

definition SELECTION_MESSAGE_TYPE :: string where
  "SELECTION_MESSAGE_TYPE = ''element-selected''"

text \<open>
  \<open>handleSelectionMessage\<close> for a message event (an object that has \<open>data\<close> and
  \<open>origin\<close>), the way a message of another frame arrives.
\<close>

definition handleSelectionMessage ::
  "config \<Rightarrow> (string \<Rightarrow> jsnum) \<Rightarrow> message_event \<Rightarrow> panel \<Rightarrow> panel" where
  "handleSelectionMessage cfg pf event st =
     (case isTrustedDesignerMessage cfg event st of
        (False, st1) \<Rightarrow> st1
      | (True, st1) \<Rightarrow>
          let message = evData event in
          if optProp message ''type'' \<noteq> Str SELECTION_MESSAGE_TYPE then st1
          else applySelectionState cfg pf
                 (js_or (getProp message ''selection'') (js_or (getProp message ''element'') Null))
                 st1)"

section \<open>Panel: analysis\<close>

text \<open>
  What the recommendation endpoint does with a request: the fetch fails with a message,
  the status is not a success, the body is JSON, or reading the body fails with a
  message.
\<close>

datatype backend_response = NetworkError string | HttpError | Json jsval | BadJson string

text \<open>The number in a value that \<open>toFiniteNumber\<close> returned, or a default for null.\<close>

fun numberOr :: "jsval \<Rightarrow> rat \<Rightarrow> rat" where
  "numberOr (Num (Fin q)) d = q"
| "numberOr v d = d"

definition buildMockRecommendations :: "(string \<Rightarrow> jsnum) \<Rightarrow> jsval \<Rightarrow> jsval" where
  "buildMockRecommendations pf measuredWidths =
     (let desktopMeasured = numberOr (toFiniteNumber pf (optProp measuredWidths ''desktop'')) 640;
          mobileMeasured = numberOr (toFiniteNumber pf (optProp measuredWidths ''mobile''))
                             (of_int (mathRound (desktopMeasured * (6 / 10))));
          universal = mathRound (max desktopMeasured mobileMeasured * 2)
      in Obj [(''universalUploadSize'', Num (Fin (of_int universal))),
              (''desktopRenderSize'', Num (Fin desktopMeasured)),
              (''mobileRenderSize'', Num (Fin mobileMeasured)),
              (''explanation'', Str ''DEV mock response: doubled the largest measured width to simulate the AI backend while offline.'')])"

text \<open>
  \<open>requestRecommendations\<close>: the error message thrown, or the recommendations. The
  \<open>catch\<close> covers the fetch and the status test; a body that cannot be read rejects
  the promise the function has already returned.
\<close>

definition requestRecommendations ::
  "config \<Rightarrow> (string \<Rightarrow> jsnum) \<Rightarrow> backend_response \<Rightarrow> jsval \<Rightarrow> string + jsval" where
  "requestRecommendations cfg pf response payload =
     (case response of
        Json recommendations \<Rightarrow> Inr recommendations
      | BadJson message \<Rightarrow> Inl message
      | NetworkError message \<Rightarrow>
          if DEV_ENVIRONMENT cfg then Inr (buildMockRecommendations pf (optProp payload ''widths''))
          else Inl message
      | HttpError \<Rightarrow>
          if DEV_ENVIRONMENT cfg then Inr (buildMockRecommendations pf (optProp payload ''widths''))
          else Inl ''The AI backend returned an error.'')"

fun formatPixelValue :: "jsval \<Rightarrow> pixel_text" where
  "formatPixelValue (Num (Fin q)) = Px (mathRound q)"
| "formatPixelValue v = NoPixels"

text \<open>\<open>x * 2\<close> for a number.\<close>

fun timesTwo :: "jsval \<Rightarrow> jsval" where
  "timesTwo (Num (Fin q)) = Num (Fin (q * 2))"
| "timesTwo (Num n) = Num n"
| "timesTwo v = Num NaN"

definition renderResults :: "(string \<Rightarrow> jsnum) \<Rightarrow> jsval \<Rightarrow> jsval \<Rightarrow> panel \<Rightarrow> panel" where
  "renderResults pf recommendations measuredWidths st =
     (let desktopMeasured = coalesce (toFiniteNumber pf (optProp measuredWidths ''desktop''))
                              (toFiniteNumber pf (optProp measuredWidths ''mobile''));
          mobileMeasured = coalesce (toFiniteNumber pf (optProp measuredWidths ''mobile''))
                             desktopMeasured;
          universalFallback =
            (if truthy desktopMeasured then timesTwo desktopMeasured
             else if truthy mobileMeasured then timesTwo mobileMeasured
             else Null);
          universal = coalesce (optProp recommendations ''universalUploadSize'') universalFallback;
          desktop = coalesce (optProp recommendations ''desktopRenderSize'') desktopMeasured;
          mobile = coalesce (optProp recommendations ''mobileRenderSize'') mobileMeasured;
          explanation = coalesce (optProp recommendations ''explanation'')
            (Str ''We doubled the largest rendered width to create a single upload that remains sharp across all breakpoints.'')
      in showResultsCard
           (st\<lparr>uiUniversalSize := formatPixelValue universal,
               uiDesktopSize := formatPixelValue desktop,
               uiMobileSize := formatPixelValue mobile,
               uiExplanation := explanation\<rparr>))"

definition getWidthSource :: "jsval \<Rightarrow> string" where
  "getWidthSource selection =
     (if truthy (optProp selection ''widths'') then ''designer''
      else if truthy (optProp selection ''computedWidths'') then ''computed''
      else ''unknown'')"

text \<open>The \<open>catch\<close> and \<open>finally\<close> of \<open>handleAnalyzeClick\<close>.\<close>

definition analysisFailed :: "string \<Rightarrow> panel \<Rightarrow> panel" where
  "analysisFailed message st =
     setAnalyzeProcessing False
       (setStatus (if message = [] then ''Unable to analyze the selected element.'' else message)
          ''error'' (hideResults st))"

text \<open>
  \<open>handleAnalyzeClick\<close>, with the answer the endpoint gives if it is asked. Every
  request the panel issues is appended to \<open>requests\<close>.
\<close>

definition handleAnalyzeClick ::
  "config \<Rightarrow> (string \<Rightarrow> jsnum) \<Rightarrow> backend_response \<Rightarrow> panel \<Rightarrow> panel" where
  "handleAnalyzeClick cfg pf response st =
     (if \<not> truthy (currentSelected st) then
        setStatus ''Select an image in the Designer first.'' ''warning'' (hideResults st)
      else
        let st1 = setStatus ''Checking selected element...'' ''info'' (setAnalyzeProcessing True st);
            measuredWidths = deriveMeasuredWidths pf (currentSelected st1)
        in
        if \<not> truthy measuredWidths then
          analysisFailed ''Unable to determine rendered widths for the selected element.'' st1
        else
          let st2 = setStatus ''Sending widths to AI backend...'' ''info'' st1;
              payload = Obj [
                (''element'', Obj [
                   (''label'', coalesce (getProp (currentSelected st2) ''label'') (Str ''Selected element'')),
                   (''tagName'', coalesce (getProp (currentSelected st2) ''tagName'') Null),
                   (''selector'', coalesce (getProp (currentSelected st2) ''selector'') Null)]),
                (''widths'', measuredWidths),
                (''metadata'', Obj [
                   (''source'', Str (getWidthSource (currentSelected st2))),
                   (''computedWidths'', coalesce (getProp (currentSelected st2) ''computedWidths'') Null)])];
              st3 = st2\<lparr>requests := requests st2 @ [payload]\<rparr>
          in
          (case requestRecommendations cfg pf response payload of
             Inl message \<Rightarrow> analysisFailed message st3
           | Inr recommendations \<Rightarrow>
               setAnalyzeProcessing False
                 (setStatus ''Analysis complete.'' ''info''
                    (renderResults pf recommendations measuredWidths st3))))"

section \<open>Panel: handshake retries\<close>

text \<open>
  The variables of the panel script that retries its handshake, the messages it has sent
  to the host (by type), and how many of them the retry timer sent. \<open>handshakeTimer\<close>
  holds the period of the running interval timer, in milliseconds.
\<close>

record handshake =
  hsCurrentSelected :: jsval
  hsHasLabelElement :: bool
  handshakeTimer :: "nat option"
  handshakeAttempts :: nat
  handshakeComplete :: bool
  sentToHost :: "string list"
  retryRounds :: nat

definition MAX_HANDSHAKE_ATTEMPTS :: nat where
  "MAX_HANDSHAKE_ATTEMPTS = 30"

definition SUBSCRIBE_MESSAGE_TYPE :: string where
  "SUBSCRIBE_MESSAGE_TYPE = ''riaa:selection:subscribe''"

definition REQUEST_MESSAGE_TYPE :: string where
  "REQUEST_MESSAGE_TYPE = ''riaa:selection:request''"

definition CONTEXT_READY_MESSAGE_TYPE :: string where
  "CONTEXT_READY_MESSAGE_TYPE = ''riaa:context-ready''"

definition requestSelectionUpdate :: "bool \<Rightarrow> handshake \<Rightarrow> handshake" where
  "requestSelectionUpdate initial st =
     st\<lparr>sentToHost := sentToHost st @
          [if initial then SUBSCRIBE_MESSAGE_TYPE else REQUEST_MESSAGE_TYPE]\<rparr>"

definition notifyContextReady :: "handshake \<Rightarrow> handshake" where
  "notifyContextReady st = st\<lparr>sentToHost := sentToHost st @ [CONTEXT_READY_MESSAGE_TYPE]\<rparr>"

definition stopHandshakeRetries :: "handshake \<Rightarrow> handshake" where
  "stopHandshakeRetries st =
     (case handshakeTimer st of None \<Rightarrow> st | Some t \<Rightarrow> st\<lparr>handshakeTimer := None\<rparr>)"

definition startHandshakeRetries :: "bool \<Rightarrow> handshake \<Rightarrow> handshake" where
  "startHandshakeRetries force st =
     (if handshakeTimer st \<noteq> None then st
      else if handshakeComplete st \<and> \<not> force then st
      else (if force then st\<lparr>handshakeAttempts := 0\<rparr> else st)\<lparr>handshakeTimer := Some 1000\<rparr>)"

text \<open>The callback of the interval timer; it runs only while the timer is set.\<close>

definition handshakeTick :: "handshake \<Rightarrow> handshake" where
  "handshakeTick st =
     (if handshakeTimer st = None then st
      else if handshakeComplete st \<or> MAX_HANDSHAKE_ATTEMPTS \<le> handshakeAttempts st
      then stopHandshakeRetries st
      else
        let st1 = st\<lparr>handshakeAttempts := handshakeAttempts st + 1, retryRounds := retryRounds st + 1\<rparr>
        in notifyContextReady (requestSelectionUpdate (handshakeAttempts st1 = 1) st1))"

text \<open>
  \<open>handleSelectionMessage\<close> of this script, on the data of a message. What it then
  shows of the selection neither reads nor writes the handshake variables.
\<close>

definition hsHandleSelectionMessage :: "jsval \<Rightarrow> handshake \<Rightarrow> handshake" where
  "hsHandleSelectionMessage data st =
     (if optProp data ''type'' \<noteq> Str SELECTION_MESSAGE_TYPE then st
      else stopHandshakeRetries
             (st\<lparr>hsCurrentSelected := js_or (getProp data ''element'') Null,
                 handshakeComplete := True\<rparr>))"

text \<open>
  The refresh button: \<open>refreshSelectionLabel()\<close>, then a request. The former ends by
  showing the selection again; when writing the label throws, the request is not sent.
\<close>

definition refreshClicked :: "handshake \<Rightarrow> handshake" where
  "refreshClicked st =
     (let st1 = startHandshakeRetries True (st\<lparr>handshakeComplete := False\<rparr>) in
      if hsHasLabelElement st1 \<and> labelThrows (hsCurrentSelected st1) then st1
      else requestSelectionUpdate False st1)"

text \<open>The panel as \<open>initPanel\<close> leaves it; the page has the label element or not.\<close>

definition hsInitPanel :: "bool \<Rightarrow> handshake" where
  "hsInitPanel hasLabel =
     startHandshakeRetries False
       (notifyContextReady
          (requestSelectionUpdate True
             \<lparr>hsCurrentSelected = Null, hsHasLabelElement = hasLabel, handshakeTimer = None,
              handshakeAttempts = 0, handshakeComplete = False, sentToHost = [],
              retryRounds = 0\<rparr>))"

text \<open>What can happen to the panel after it has loaded, and a run of such events.\<close>

datatype panel_event = TimerTick | HostMessage jsval | RefreshClick

fun panelStep :: "handshake \<Rightarrow> panel_event \<Rightarrow> handshake" where
  "panelStep st TimerTick = handshakeTick st"
| "panelStep st (HostMessage data) = hsHandleSelectionMessage data st"
| "panelStep st RefreshClick = refreshClicked st"

definition panelRun :: "bool \<Rightarrow> panel_event list \<Rightarrow> handshake" where
  "panelRun hasLabel events = foldl panelStep (hsInitPanel hasLabel) events"

definition refreshCount :: "panel_event list \<Rightarrow> nat" where
  "refreshCount events = length (filter (\<lambda>e. e = RefreshClick) events)"

section \<open>Bridge: normalizing the host's selection\<close>

text \<open>\<open>toPositiveNumber\<close> of the bridge script: as \<open>toFiniteNumber\<close>, then rounded.\<close>

fun toPositiveNumber :: "(string \<Rightarrow> jsnum) \<Rightarrow> jsval \<Rightarrow> jsval" where
  "toPositiveNumber pf (Num (Fin q)) =
     (if 0 < q then Num (Fin (of_int (mathRound q))) else Null)"
| "toPositiveNumber pf (Str s) =
     (case parseFloat pf s of
        Fin q \<Rightarrow> (if 0 < q then Num (Fin (of_int (mathRound q))) else Null)
      | _ \<Rightarrow> Null)"
| "toPositiveNumber pf v = Null"

definition sanitizeWidths :: "(string \<Rightarrow> jsnum) \<Rightarrow> jsval \<Rightarrow> jsval" where
  "sanitizeWidths pf widths =
     (if \<not> truthy widths \<or> \<not> typeofObject widths then Null
      else
        let sanitized =
              foldl (\<lambda>acc key.
                       let value = toPositiveNumber pf (getProp widths key) in
                       if truthy value then AList.update key value acc else acc)
                [] [''desktop'', ''tablet'', ''mobile'']
        in if sanitized \<noteq> [] then Obj sanitized else Null)"

definition createSerializableSelection :: "(string \<Rightarrow> jsnum) \<Rightarrow> jsval \<Rightarrow> jsval" where
  "createSerializableSelection pf source =
     (if \<not> truthy source \<or> \<not> typeofObject source then Obj []
      else
        let safe = Obj [
              (''id'', coalesce (getProp source ''id'') (coalesce (getProp source ''elementId'') Null)),
              (''elementId'', coalesce (getProp source ''elementId'') (coalesce (getProp source ''id'') Null)),
              (''label'', coalesce (getProp source ''label'') (coalesce (getProp source ''name'') Null)),
              (''selector'', coalesce (getProp source ''selector'') Null),
              (''tagName'', coalesce (getProp source ''tagName'') Null)];
            sanitizedWidths = sanitizeWidths pf (getProp source ''widths'')
        in if truthy sanitizedWidths then setProp ''widths'' sanitizedWidths safe else safe)"

text \<open>
  What the bridge reads of the host page: the node a selector or an id finds in the
  document (\<open>None\<close> when there is none, or the lookup throws), and the device the
  Designer currently shows.
\<close>

record host_page =
  querySelector :: "jsval \<Rightarrow> dom option"
  getElementById :: "jsval \<Rightarrow> dom option"
  getCurrentDevice :: string

fun asNode :: "jsval \<Rightarrow> dom option" where
  "asNode (Elem d) = Some d"
| "asNode v = None"

definition resolveDomNode :: "host_page \<Rightarrow> jsval \<Rightarrow> dom option" where
  "resolveDomNode page selectedElement =
     (case List.find (\<lambda>candidate. asNode candidate \<noteq> None)
             (map (optProp selectedElement) [''domNode'', ''element'', ''el'', ''node'', ''target'']) of
        Some candidate \<Rightarrow> asNode candidate
      | None \<Rightarrow>
          let bySelector =
                (if truthy (optProp selectedElement ''selector'')
                 then querySelector page (optProp selectedElement ''selector'')
                 else None)
          in (case bySelector of
                Some match \<Rightarrow> Some match
              | None \<Rightarrow>
                  if truthy (optProp selectedElement ''id'')
                  then getElementById page (optProp selectedElement ''id'')
                  else None))"

definition MEDIA_TAGS :: "string list" where
  "MEDIA_TAGS = [''img'', ''picture'', ''video'', ''canvas'', ''figure'', ''svg'']"

fun hasBackgroundImage :: "dom \<Rightarrow> bool" where
  "hasBackgroundImage (ElementNode tag ident classes w bg nested) = bg"
| "hasBackgroundImage (RectOnly w) = False"

fun isImageLikeElement :: "dom \<Rightarrow> bool" where
  "isImageLikeElement (ElementNode tag ident classes w bg nested) =
     (if toLowerCase tag = [] then False
      else if toLowerCase tag \<in> set MEDIA_TAGS then True
      else hasBackgroundImage (ElementNode tag ident classes w bg nested))"
| "isImageLikeElement (RectOnly w) = False"

fun findVisualMediaNode :: "dom option \<Rightarrow> dom option" where
  "findVisualMediaNode None = None"
| "findVisualMediaNode (Some (RectOnly w)) = None"
| "findVisualMediaNode (Some (ElementNode tag ident classes w bg nested)) =
     (let node = ElementNode tag ident classes w bg nested in
      if isImageLikeElement node then Some node
      else if hasBackgroundImage node then Some node
      else (case nested of Some found \<Rightarrow> Some found | None \<Rightarrow> Some node))"

definition computeBoundingWidths :: "(string \<Rightarrow> jsnum) \<Rightarrow> host_page \<Rightarrow> dom option \<Rightarrow> jsval" where
  "computeBoundingWidths pf page node =
     (let fallback = Obj [(''desktop'', Null), (''mobile'', Null)] in
      case node of
        None \<Rightarrow> fallback
      | Some n \<Rightarrow>
          let width = toPositiveNumber pf (rectWidth n) in
          if \<not> truthy width then fallback
          else
            let measurements = Obj [(''desktop'', Null), (''mobile'', Null)] in
            if getCurrentDevice page = ''mobile''
            then setProp ''desktop'' width (setProp ''mobile'' width measurements)
            else setProp ''mobile'' width (setProp ''desktop'' width measurements))"

fun joinWith :: "string \<Rightarrow> string list \<Rightarrow> string" where
  "joinWith sep [] = []"
| "joinWith sep [x] = x"
| "joinWith sep (x # y # ys) = x @ sep @ joinWith sep (y # ys)"

fun buildSelector :: "dom option \<Rightarrow> jsval \<Rightarrow> jsval" where
  "buildSelector node fallbackSelector =
     (if truthy fallbackSelector then fallbackSelector
      else (case node of
              None \<Rightarrow> Null
            | Some (RectOnly w) \<Rightarrow> Null
            | Some (ElementNode tag ident classes w bg nested) \<Rightarrow>
                if ident \<noteq> [] then Str (''#'' @ ident)
                else if classes \<noteq> [] then Str (toLowerCase tag @ ''.'' @ joinWith ''.'' classes)
                else Str (toLowerCase tag)))"

text \<open>\<open>node?.tagName?.toLowerCase()\<close> and \<open>node?.id\<close> for the node that is measured.\<close>

fun nodeTagName :: "dom option \<Rightarrow> jsval" where
  "nodeTagName (Some (ElementNode tag ident classes w bg nested)) = Str (toLowerCase tag)"
| "nodeTagName other = Undefined"

fun nodeId :: "dom option \<Rightarrow> jsval" where
  "nodeId (Some (ElementNode tag ident classes w bg nested)) = Str ident"
| "nodeId other = Undefined"

definition normalizeSelection :: "(string \<Rightarrow> jsnum) \<Rightarrow> host_page \<Rightarrow> jsval \<Rightarrow> jsval" where
  "normalizeSelection pf page selectedElement =
     (if \<not> truthy selectedElement then Null
      else
        let safeBase = createSerializableSelection pf selectedElement;
            domNode = resolveDomNode page selectedElement;
            visualNode = findVisualMediaNode domNode;
            measurementNode = (case visualNode of Some v \<Rightarrow> Some v | None \<Rightarrow> domNode);
            computedWidths = computeBoundingWidths pf page measurementNode;
            tagName = coalesce (nodeTagName measurementNode) (coalesce (getProp safeBase ''tagName'') Null);
            ident = js_or (nodeId measurementNode) (js_or (getProp safeBase ''id'') Null);
            selector = buildSelector measurementNode (getProp safeBase ''selector'')
        in setProp ''computedWidthMobile'' (getProp computedWidths ''mobile'')
             (setProp ''computedWidthDesktop'' (getProp computedWidths ''desktop'')
                (setProp ''computedWidths'' computedWidths
                   (setProp ''selector'' selector
                      (setProp ''id'' ident
                         (setProp ''tagName'' tagName safeBase))))))"

definition extractSelectionArray :: "jsval \<Rightarrow> jsval list" where
  "extractSelectionArray payload =
     (if \<not> truthy payload then []
      else if isArray payload then arrItems payload
      else if isArray (getProp payload ''selectedElements'') then arrItems (getProp payload ''selectedElements'')
      else if isArray (getProp payload ''elements'') then arrItems (getProp payload ''elements'')
      else if isArray (getProp payload ''selection'') then arrItems (getProp payload ''selection'')
      else if truthy (getProp payload ''selectedElement'') then [getProp payload ''selectedElement'']
      else if truthy (getProp payload ''element'') then [getProp payload ''element'']
      else [payload])"

definition createEmptySelectionState :: jsval where
  "createEmptySelectionState =
     Obj [(''elements'', Arr []), (''primary'', Null), (''devMock'', Bool False)]"

definition mockElement :: "jsval \<Rightarrow> jsval" where
  "mockElement reason =
     Obj [(''id'', Str ''riaa-dev-mock''),
          (''label'', Str ''DEV Mock Image''),
          (''tagName'', Str ''img''),
          (''selector'', Str ''.riaa-dev-mock''),
          (''widths'', Obj [(''desktop'', Num (Fin 640)), (''mobile'', Num (Fin 320))]),
          (''computedWidths'', Obj [(''desktop'', Num (Fin 640)), (''mobile'', Num (Fin 320))]),
          (''computedWidthDesktop'', Num (Fin 640)),
          (''computedWidthMobile'', Num (Fin 320)),
          (''devMock'', Bool True),
          (''reason'', reason)]"

definition createDevSelectionState :: "jsval \<Rightarrow> jsval" where
  "createDevSelectionState reason =
     Obj [(''elements'', Arr [mockElement reason]),
          (''primary'', mockElement reason),
          (''devMock'', Bool True),
          (''reason'', reason)]"

definition normalizeSelectionState :: "(string \<Rightarrow> jsnum) \<Rightarrow> host_page \<Rightarrow> jsval \<Rightarrow> jsval" where
  "normalizeSelectionState pf page payload =
     (if truthy payload \<and> truthy (getProp payload ''devMock'') then
        Obj [(''elements'', js_or (getProp payload ''elements'') (Arr [])),
             (''primary'', js_or (getProp payload ''primary'') Null),
             (''devMock'', Bool True)]
      else
        let selectionArray = extractSelectionArray payload in
        if selectionArray = [] then createEmptySelectionState
        else
          let normalizedElements = filter truthy (map (normalizeSelection pf page) selectionArray) in
          if normalizedElements = [] then createEmptySelectionState
          else Obj [(''elements'', Arr normalizedElements),
                    (''primary'', coalesce (firstItem normalizedElements) Null),
                    (''devMock'', Bool False)])"

text \<open>
  A width value as the data model wants it: absent (null or undefined), or a positive
  whole number of pixels. A descriptor's seven width slots: the three host widths, the
  computed pair, and the two flattened copies.
\<close>

fun wholePixels :: "jsval \<Rightarrow> bool" where
  "wholePixels (Num (Fin q)) = (0 < q \<and> of_int \<lfloor>q\<rfloor> = q)"
| "wholePixels v = False"

definition widthValueOk :: "jsval \<Rightarrow> bool" where
  "widthValueOk v = (nullish v \<or> wholePixels v)"

definition descriptorWidthsOk :: "jsval \<Rightarrow> bool" where
  "descriptorWidthsOk descriptor =
     (widthValueOk (optProp (getProp descriptor ''widths'') ''desktop'') \<and>
      widthValueOk (optProp (getProp descriptor ''widths'') ''tablet'') \<and>
      widthValueOk (optProp (getProp descriptor ''widths'') ''mobile'') \<and>
      widthValueOk (optProp (getProp descriptor ''computedWidths'') ''desktop'') \<and>
      widthValueOk (optProp (getProp descriptor ''computedWidths'') ''tablet'') \<and>
      widthValueOk (optProp (getProp descriptor ''computedWidths'') ''mobile'') \<and>
      widthValueOk (getProp descriptor ''computedWidthDesktop'') \<and>
      widthValueOk (getProp descriptor ''computedWidthMobile''))"

section \<open>Bridge: subscribers, broadcast and trust\<close>

text \<open>
  What the bridge's environment fixes: the development flag and the URL parser (as for
  the panel), the origin the bridge script was loaded from (\<open>None\<close> when it cannot be
  derived), and the windows and target origins for which \<open>postMessage\<close> throws.
\<close>

record bridge_config = config +
  scriptOrigin :: "string option"
  postMessageThrows :: "msg_source \<Rightarrow> string \<Rightarrow> bool"

text \<open>
  The variables of the bridge script, and every message it has posted: the target
  window, the message and the target origin.
\<close>

record bridge =
  subscribers :: "msg_source list"
  subscriberOrigins :: "msg_source \<Rightarrow> string option"
  latestSelectionState :: jsval
  devMockActive :: bool
  designerScriptSupported :: bool
  trustedPanelOrigin :: "string option"
  panelOriginConfirmed :: bool
  trustedPanelWindow :: "msg_source option"
  posted :: "(msg_source \<times> jsval \<times> string) list"

text \<open>A string or null, read for its truthiness: \<open>a || b\<close> on two of them.\<close>

fun originOr :: "string option \<Rightarrow> string option \<Rightarrow> string option" where
  "originOr (Some s) b = (if s \<noteq> [] then Some s else b)"
| "originOr None b = b"

definition PANEL_HOST_SUFFIXES :: "string list" where
  "PANEL_HOST_SUFFIXES = [''website-files.com'', ''webflow-ext.com'']"

definition selectionMessage :: "jsval \<Rightarrow> jsval" where
  "selectionMessage selectionState =
     Obj [(''type'', Str SELECTION_MESSAGE_TYPE),
          (''selection'', selectionState),
          (''element'', coalesce (optProp selectionState ''primary'') Null)]"

definition postToPanel ::
  "bridge_config \<Rightarrow> msg_source \<Rightarrow> jsval \<Rightarrow> string option \<Rightarrow> bridge \<Rightarrow> bool \<times> bridge" where
  "postToPanel cfg target selectionState originOverride st =
     (case originOr originOverride (originOr (subscriberOrigins st target) (originOr (trustedPanelOrigin st) None)) of
        None \<Rightarrow> (False, st)
      | Some targetOrigin \<Rightarrow>
          if \<not> canPostMessage target \<or> postMessageThrows cfg target targetOrigin then (False, st)
          else (True, st\<lparr>posted := posted st @ [(target, selectionMessage selectionState, targetOrigin)]\<rparr>))"

fun isBool :: "jsval \<Rightarrow> bool" where
  "isBool (Bool b) = True"
| "isBool v = False"

text \<open>One round of the \<open>forEach\<close> of \<open>broadcastSelection\<close>, for one subscriber.\<close>

definition notifySubscriber :: "bridge_config \<Rightarrow> jsval \<Rightarrow> bridge \<Rightarrow> msg_source \<Rightarrow> bridge" where
  "notifySubscriber cfg payload st subscriber =
     (case originOr (subscriberOrigins st subscriber) None of
        None \<Rightarrow> st\<lparr>subscribers := removeAll subscriber (subscribers st)\<rparr>
      | Some origin \<Rightarrow>
          (case postToPanel cfg subscriber payload (Some origin) st of
             (True, st1) \<Rightarrow> st1
           | (False, st1) \<Rightarrow>
               st1\<lparr>subscribers := removeAll subscriber (subscribers st1),
                   subscriberOrigins := (subscriberOrigins st1)(subscriber := None)\<rparr>))"

text \<open>What \<open>broadcastSelection\<close> sends: the state, or the empty state, with a boolean \<open>devMock\<close>.\<close>

definition broadcastPayload :: "jsval \<Rightarrow> jsval" where
  "broadcastPayload selectionState =
     (let payload0 = coalesce selectionState createEmptySelectionState
      in if isBool (getProp payload0 ''devMock'') then payload0
         else setProp ''devMock'' (Bool False) payload0)"

definition broadcastSelection :: "bridge_config \<Rightarrow> jsval \<Rightarrow> bridge \<Rightarrow> bridge" where
  "broadcastSelection cfg selectionState st =
     (let payload = broadcastPayload selectionState
      in foldl (notifySubscriber cfg payload) (st\<lparr>latestSelectionState := payload\<rparr>) (subscribers st))"

definition maybeActivateDevMock :: "bridge_config \<Rightarrow> jsval \<Rightarrow> bridge \<Rightarrow> bridge" where
  "maybeActivateDevMock cfg reason st =
     (if \<not> DEV_ENVIRONMENT cfg then st
      else if devMockActive st \<and> truthy (optProp (latestSelectionState st) ''devMock'') then st
      else broadcastSelection cfg
             (setProp ''devMockReason'' (coalesce reason Null) (createDevSelectionState reason))
             (st\<lparr>devMockActive := True\<rparr>))"

definition registerSubscriber :: "message_event \<Rightarrow> bridge \<Rightarrow> msg_source option \<times> bridge" where
  "registerSubscriber event st =
     (case evSource event of
        None \<Rightarrow> (None, st)
      | Some source \<Rightarrow>
          if \<not> canPostMessage source then (None, st)
          else
            (Some source,
             st\<lparr>subscribers := (if source \<in> set (subscribers st) then subscribers st
                                 else subscribers st @ [source]),
                subscriberOrigins := (subscriberOrigins st)
                   (source := originOr (Some (evOrigin event)) (trustedPanelOrigin st)),
                trustedPanelWindow := (case trustedPanelWindow st of
                                         None \<Rightarrow> Some source
                                       | Some w \<Rightarrow> Some w)\<rparr>))"

text \<open>
  The host runtime, as far as the bridge uses it: each of the two selection getters is
  absent, or returns a value when called, or throws.
\<close>

datatype call = Returns jsval | Throws

record runtime =
  hasDesignerScript :: bool
  getSelectedElements :: "call option"
  getSelectedElement :: "call option"

text \<open>
  \<open>fetchCurrentSelection\<close>, given what the runtime promise resolved to: the state it
  returns and the bridge after it.
\<close>

definition fetchFailed :: "bridge_config \<Rightarrow> bridge \<Rightarrow> jsval \<times> bridge" where
  "fetchFailed cfg st =
     (if DEV_ENVIRONMENT cfg
      then (createDevSelectionState Undefined, maybeActivateDevMock cfg (Str ''runtime-error'') st)
      else (createEmptySelectionState, st))"

definition fetchCurrentSelection ::
  "bridge_config \<Rightarrow> (string \<Rightarrow> jsnum) \<Rightarrow> host_page \<Rightarrow> runtime option \<Rightarrow> bridge \<Rightarrow> jsval \<times> bridge" where
  "fetchCurrentSelection cfg pf page rt st =
     (case rt of
        None \<Rightarrow>
          if DEV_ENVIRONMENT cfg
          then (createDevSelectionState Undefined, maybeActivateDevMock cfg (Str ''runtime-missing'') st)
          else (createEmptySelectionState, st)
      | Some r \<Rightarrow>
          (case getSelectedElements r of
             Some (Returns selectionArray) \<Rightarrow>
               (normalizeSelectionState pf page (js_or selectionArray (Arr [])), st)
           | Some Throws \<Rightarrow> fetchFailed cfg st
           | None \<Rightarrow>
               (case getSelectedElement r of
                  Some (Returns selection) \<Rightarrow>
                    (normalizeSelectionState pf page (coalesce selection Null), st)
                | Some Throws \<Rightarrow> fetchFailed cfg st
                | None \<Rightarrow>
                    if DEV_ENVIRONMENT cfg
                    then (createDevSelectionState Undefined,
                          maybeActivateDevMock cfg (Str ''runtime-incomplete'') st)
                    else (createEmptySelectionState, st))))"

definition fetchAndBroadcastSelection ::
  "bridge_config \<Rightarrow> (string \<Rightarrow> jsnum) \<Rightarrow> host_page \<Rightarrow> runtime option \<Rightarrow> bridge \<Rightarrow> bridge" where
  "fetchAndBroadcastSelection cfg pf page rt st =
     (case fetchCurrentSelection cfg pf page rt st of
        (selection, st1) \<Rightarrow> broadcastSelection cfg selection st1)"

definition isAllowedPanelOrigin :: "bridge_config \<Rightarrow> string \<Rightarrow> bool" where
  "isAllowedPanelOrigin cfg origin =
     (if origin = [] then False
      else if DEV_ENVIRONMENT cfg then True
      else if originOr (scriptOrigin cfg) None \<noteq> None \<and> Some origin = scriptOrigin cfg then True
      else (case urlHostname cfg (Str origin) of
              None \<Rightarrow> False
            | Some hostname \<Rightarrow>
                list_ex (\<lambda>suffix. hostname = suffix \<or> endsWith hostname (''.'' @ suffix))
                  PANEL_HOST_SUFFIXES))"

definition isTrustedPanelMessage :: "bridge_config \<Rightarrow> message_event \<Rightarrow> bridge \<Rightarrow> bool \<times> bridge" where
  "isTrustedPanelMessage cfg event st =
     (let origin = evOrigin event in
      if origin = [] \<or> \<not> isAllowedPanelOrigin cfg origin then (False, st)
      else
        let st1 = (if \<not> panelOriginConfirmed st
                   then st\<lparr>trustedPanelOrigin := Some origin, panelOriginConfirmed := True\<rparr>
                   else st)
        in
        if originOr (trustedPanelOrigin st1) None \<noteq> None \<and> Some origin \<noteq> trustedPanelOrigin st1
        then (False, st1)
        else
          let st2 = (case (trustedPanelWindow st1, evSource event) of
                       (None, Some s) \<Rightarrow>
                         if canPostMessage s then st1\<lparr>trustedPanelWindow := Some s\<rparr> else st1
                     | _ \<Rightarrow> st1)
          in
          (case (trustedPanelWindow st2, evSource event) of
             (Some w, Some s) \<Rightarrow> if s \<noteq> w then (False, st2) else (True, st2)
           | _ \<Rightarrow> (True, st2)))"

definition PANEL_RESIZE_MESSAGE :: string where
  "PANEL_RESIZE_MESSAGE = ''riaa:panel:resize''"

text \<open>\<open>state?.elements?.length\<close>, read for its truthiness.\<close>

fun hasLength :: "jsval \<Rightarrow> bool" where
  "hasLength (Arr xs) = (xs \<noteq> [])"
| "hasLength (Str s) = (s \<noteq> [])"
| "hasLength (Obj kvs) = truthy (getProp (Obj kvs) ''length'')"
| "hasLength v = False"

definition hasSelectionToShare :: "jsval \<Rightarrow> bool" where
  "hasSelectionToShare state =
     (truthy (optProp state ''primary'') \<or> hasLength (optProp state ''elements''))"

text \<open>
  What \<open>handlePanelMessage\<close> does with a message it trusts, given what the runtime
  promise resolves to. A resize request goes to the runtime and leaves the bridge's
  variables alone.
\<close>

definition respondToPanel ::
  "bridge_config \<Rightarrow> (string \<Rightarrow> jsnum) \<Rightarrow> host_page \<Rightarrow> runtime option \<Rightarrow> message_event \<Rightarrow> bridge \<Rightarrow> bridge" where
  "respondToPanel cfg pf page rt event st =
     (let type = optProp (evData event) ''type'' in
      if type = Str CONTEXT_READY_MESSAGE_TYPE then
        (case registerSubscriber event st of
           (source, st1) \<Rightarrow>
             if \<not> hasSelectionToShare (latestSelectionState st1)
             then fetchAndBroadcastSelection cfg pf page rt st1
             else broadcastSelection cfg (latestSelectionState st1) st1)
      else if type = Str PANEL_RESIZE_MESSAGE then st
      else if type \<noteq> Str SUBSCRIBE_MESSAGE_TYPE \<and> type \<noteq> Str REQUEST_MESSAGE_TYPE then st
      else
        (case registerSubscriber event st of
           (None, st1) \<Rightarrow> st1
         | (Some source, st1) \<Rightarrow>
             (case (if hasSelectionToShare (latestSelectionState st1)
                    then (latestSelectionState st1, st1)
                    else fetchCurrentSelection cfg pf page rt st1) of
                (payload, st2) \<Rightarrow>
                  snd (postToPanel cfg source (coalesce payload Null)
                         (originOr (subscriberOrigins st2 source)
                            (originOr (Some (evOrigin event)) (trustedPanelOrigin st2)))
                         st2))))"

text \<open>\<open>handlePanelMessage\<close>: a message that is not trusted is dropped.\<close>

definition handlePanelMessage ::
  "bridge_config \<Rightarrow> (string \<Rightarrow> jsnum) \<Rightarrow> host_page \<Rightarrow> runtime option \<Rightarrow> message_event \<Rightarrow> bridge \<Rightarrow> bridge" where
  "handlePanelMessage cfg pf page rt event st0 =
     (case isTrustedPanelMessage cfg event st0 of
        (False, st) \<Rightarrow> st
      | (True, st) \<Rightarrow> respondToPanel cfg pf page rt event st)"

text \<open>
  The bridge as the script leaves it when it has loaded: the trusted origin is the
  script's own origin when that is known; in a development environment without
  DesignerScript the mock selection is activated at once.
\<close>

definition initialBridge :: "bridge_config \<Rightarrow> bridge" where
  "initialBridge cfg =
     \<lparr>subscribers = [], subscriberOrigins = (\<lambda>w. None),
      latestSelectionState = createEmptySelectionState,
      devMockActive = False, designerScriptSupported = False,
      trustedPanelOrigin = originOr (scriptOrigin cfg) None,
      panelOriginConfirmed = (originOr (scriptOrigin cfg) None \<noteq> None),
      trustedPanelWindow = None, posted = []\<rparr>"

definition bridgeLoaded :: "bridge_config \<Rightarrow> bool \<Rightarrow> bridge" where
  "bridgeLoaded cfg probeFindsDesignerScript =
     (let st = (initialBridge cfg)\<lparr>designerScriptSupported := probeFindsDesignerScript\<rparr> in
      if \<not> designerScriptSupported st \<and> DEV_ENVIRONMENT cfg
      then maybeActivateDevMock cfg (Str ''designerscript-unavailable'') st
      else st)"







text \<open>The fixed mock: one descriptor, an image of 640 and 320 pixels.\<close>

definition isFixedMock :: "jsval \<Rightarrow> bool" where
  "isFixedMock state =
     (case getProp state ''elements'' of
        Arr [descriptor] \<Rightarrow>
          getProp state ''primary'' = descriptor \<and>
          getProp state ''devMock'' = Bool True \<and>
          getProp descriptor ''tagName'' = Str ''img'' \<and>
          getProp descriptor ''widths'' = Obj [(''desktop'', Num (Fin 640)), (''mobile'', Num (Fin 320))]
      | _ \<Rightarrow> False)"

text \<open>
  A selection event of the host runtime: \<open>handleSelectionChange\<close> normalizes the payload
  and broadcasts the state.
\<close>

definition handleSelectionChange ::
  "bridge_config \<Rightarrow> (string \<Rightarrow> jsnum) \<Rightarrow> host_page \<Rightarrow> jsval \<Rightarrow> bridge \<Rightarrow> bridge" where
  "handleSelectionChange cfg pf page payload st =
     (let state = normalizeSelectionState pf page payload;
          st1 = (if \<not> truthy (getProp state ''devMock'')
                 then st\<lparr>devMockActive := False, designerScriptSupported := True\<rparr>
                 else st)
      in broadcastSelection cfg state st1)"

text \<open>
  A session of the bridge's message handler: the messages in the order they arrive, each
  with what the runtime promise resolves to for it.
\<close>

definition bridgeSession ::
  "bridge_config \<Rightarrow> (string \<Rightarrow> jsnum) \<Rightarrow> host_page \<Rightarrow> (runtime option \<times> message_event) list \<Rightarrow> bridge \<Rightarrow> bridge" where
  "bridgeSession cfg pf page messages st =
     foldl (\<lambda>s (rt, event). handlePanelMessage cfg pf page rt event s) st messages"

text \<open>The origin \<open>origin\<close> is pinned: confirmed, and the trusted origin of the bridge.\<close>

definition originPinned :: "string \<Rightarrow> bridge \<Rightarrow> bool" where
  "originPinned origin st =
     (origin \<noteq> [] \<and> panelOriginConfirmed st \<and> trustedPanelOrigin st = Some origin)"

text \<open>
  Every descriptor of a state has width values the data model allows. (A primary that is
  null has no width slots.)
\<close>

definition stateWidthsOk :: "jsval \<Rightarrow> bool" where
  "stateWidthsOk state =
     (list_all descriptorWidthsOk (arrItems (getProp state ''elements'')) \<and>
      descriptorWidthsOk (getProp state ''primary''))"

text \<open>
  A payload in the shape of a state, as \<open>normalizeIncomingSelection\<close> tests it: it has
  truthy \<open>elements\<close> and a truthy \<open>primary\<close>, which are taken as they are.
\<close>

definition stateShaped :: "jsval \<Rightarrow> bool" where
  "stateShaped payload =
     (truthy payload \<and> \<not> isArray payload \<and>
      truthy (getProp payload ''elements'') \<and> truthy (getProp payload ''primary''))"

text \<open>
  The payload, or the \<open>element\<close> it wraps (to any depth), is not a state-shaped payload
  that breaks the invariant itself.
\<close>

function keepsPrimaryFirst :: "jsval \<Rightarrow> bool" where
  "keepsPrimaryFirst payload =
     (if \<not> truthy payload \<or> isArray payload then True
      else if stateShaped payload then primaryIsFirst payload
      else if truthy (getProp payload ''element'') then keepsPrimaryFirst (getProp payload ''element'')
      else True)"
  by pat_completeness auto
termination
  by (relation "measure size") (auto dest: size_getProp_less)

text \<open>The mock state may have been activated only with the fixed mock as the latest state.\<close>

definition mockIsFixed :: "bridge \<Rightarrow> bool" where
  "mockIsFixed st =
     (if devMockActive st \<and> truthy (optProp (latestSelectionState st) ''devMock'')
      then isFixedMock (latestSelectionState st)
      else True)"

text \<open>The messages posted from one state of the bridge to a later one.\<close>

definition postedSince :: "bridge \<Rightarrow> bridge \<Rightarrow> (msg_source \<times> jsval \<times> string) list" where
  "postedSince before after = drop (length (posted before)) (posted after)"

definition carries :: "(jsval \<Rightarrow> bool) \<Rightarrow> msg_source \<times> jsval \<times> string \<Rightarrow> bool" where
  "carries p posting = (case posting of (target, message, origin) \<Rightarrow> p (getProp message ''selection''))"

text \<open>
  From one state of the bridge to a later one, the messages posted are kept and the new
  ones all carry a state of the given kind.
\<close>

definition postsOnly :: "(jsval \<Rightarrow> bool) \<Rightarrow> bridge \<Rightarrow> bridge \<Rightarrow> bool" where
  "postsOnly p before after =
     (take (length (posted before)) (posted after) = posted before \<and>
      list_all (carries p) (postedSince before after))"

text \<open>Two states of the bridge with the same trust variables.\<close>

definition sameTrust :: "bridge \<Rightarrow> bridge \<Rightarrow> bool" where
  "sameTrust before after =
     (trustedPanelOrigin after = trustedPanelOrigin before \<and>
      panelOriginConfirmed after = panelOriginConfirmed before \<and>
      trustedPanelWindow after = trustedPanelWindow before)"

text \<open>
  The budget of the retry timer after \<open>k\<close> forced restarts: the rounds it has sent, and
  those it may still send before the attempts reach the cap, fit in \<open>k + 1\<close> caps.
\<close>

definition retryBudget :: "handshake \<Rightarrow> nat \<Rightarrow> bool" where
  "retryBudget st k =
     (handshakeAttempts st \<le> MAX_HANDSHAKE_ATTEMPTS \<and>
      retryRounds st + (MAX_HANDSHAKE_ATTEMPTS - handshakeAttempts st)
        \<le> MAX_HANDSHAKE_ATTEMPTS * (1 + k) \<and>
      (handshakeTimer st = None \<or> handshakeTimer st = Some 1000))"

text \<open>The label \<open>updateSelectedLabel\<close> writes when it does not throw.\<close>

definition labelFor :: "jsval \<Rightarrow> jsval \<Rightarrow> label_text" where
  "labelFor state metadata =
     (if isString metadata then PlainLabel (stringOf metadata)
      else if truthy metadata \<and> typeofObject metadata then
        ElementLabel (toLowerCase (stringOf (js_or (getProp metadata ''tagName'') (Str ''element''))))
          (getProp metadata ''id'')
          (if 1 < length (arrItems (optProp state ''elements''))
           then Some (length (arrItems (optProp state ''elements''))) else None)
      else PlainLabel ''Waiting for a Designer selection...'')"

text \<open>
  What \<open>updateSelectionUI\<close> writes, in one update: the ready flag with the Analyze
  button, and, where they are given, the label, the debug box and the status line; the
  results card is hidden on demand. An element the page lacks stays absent.
\<close>

definition paint ::
  "bool \<Rightarrow> label_text option \<Rightarrow> debug_text option \<Rightarrow> bool \<Rightarrow> (string \<times> string) option \<Rightarrow> panel \<Rightarrow> panel" where
  "paint ready label debug hide status st =
     st\<lparr>analyzeSelectionReady := ready,
        uiAnalyzeButton :=
          map_option (\<lambda>old. (analyzeProcessing st \<or> \<not> ready,
                             if analyzeProcessing st then Analyzing else AnalyzeSelection))
            (uiAnalyzeButton st),
        uiSelectedLabel :=
          map_option (\<lambda>old. case label of None \<Rightarrow> old | Some l \<Rightarrow> l) (uiSelectedLabel st),
        uiSelectionDebug :=
          map_option (\<lambda>old. case debug of None \<Rightarrow> old | Some d \<Rightarrow> d) (uiSelectionDebug st),
        uiResultsHidden := map_option (\<lambda>old. if hide then True else old) (uiResultsHidden st),
        uiStatus := map_option (\<lambda>old. case status of None \<Rightarrow> old | Some s \<Rightarrow> s) (uiStatus st)\<rparr>"

text \<open>
  What \<open>updateSelectionUI\<close> paints for a stored selection state and current selection,
  on a page that has the label element or not.
\<close>

definition repaint :: "(string \<Rightarrow> jsnum) \<Rightarrow> jsval \<Rightarrow> jsval \<Rightarrow> bool \<Rightarrow> panel \<Rightarrow> panel" where
  "repaint pf state selected hasLabel st =
     (if \<not> truthy selected then
        paint False (Some (PlainLabel ''Waiting for a Designer selection...''))
          (Some NoSelectionData) True
          (Some (''Waiting for a Designer selection...'', toneColor ''info'')) st
      else if hasLabel \<and> labelThrows selected then paint True None None False None st
      else if \<not> truthy (deriveMeasuredWidths pf selected) then
        paint True (Some (labelFor state selected)) (Some (JsonOf (debugPayload selected))) False
          (Some (''Waiting for rendered widths from the Designer runtime...'', toneColor ''warning'')) st
      else if truthy (optProp state ''devMock'') then
        paint True (Some (labelFor state selected)) (Some (JsonOf (debugPayload selected))) True
          (Some (''DEV Mock Mode Active. Click Analyze to simulate results.'', toneColor ''info'')) st
      else if truthy (getProp selected ''widths'') then
        paint True (Some (labelFor state selected)) (Some (JsonOf (debugPayload selected))) False
          (Some (''Ready to analyze.'', toneColor ''info'')) st
      else
        paint True (Some (labelFor state selected)) (Some (JsonOf (debugPayload selected))) False
          (Some (''Ready (using measured width from Designer viewport).'', toneColor ''info'')) st)"

text \<open>
  The trust decision of \<open>isTrustedDesignerMessage\<close> on the three variables it reads
  and writes: the trusted origin, whether it is confirmed, and the Designer's window.
\<close>

definition designerTrust ::
  "config \<Rightarrow> message_event \<Rightarrow> jsval \<times> bool \<times> msg_source option
     \<Rightarrow> bool \<times> jsval \<times> bool \<times> msg_source option" where
  "designerTrust cfg event trust =
     (case trust of (t, c, w) \<Rightarrow>
        let origin = eventOrigin event in
        if \<not> truthy origin \<or> \<not> isAllowedHostOrigin cfg origin then (False, t, c, w)
        else
          let t1 = (if \<not> c then origin else t) in
          if t1 \<noteq> origin then (False, t1, True, w)
          else
            (case (w, evSource event) of
               (Some ww, Some s) \<Rightarrow> if s \<noteq> ww then (False, t1, True, w) else (True, t1, True, w)
             | (None, Some s) \<Rightarrow>
                 if canPostMessage s then (True, t1, True, Some s) else (True, t1, True, None)
             | (_, None) \<Rightarrow> (True, t1, True, w)))"

section \<open>Concrete inputs\<close>

text \<open>A \<open>parseFloat\<close> under which no string is a number; the inputs below hold no strings.\<close>

definition parsesNothing :: "string \<Rightarrow> jsnum" where
  "parsesNothing s = NaN"



text \<open>The host name of an \<open>https\<close> origin; no other URL is read here.\<close>

definition httpsHostname :: "jsval \<Rightarrow> string option" where
  "httpsHostname v =
     (case v of
        Str s \<Rightarrow>
          if take 8 s = ''https://''
          then Some (takeWhile (\<lambda>c. c \<noteq> CHR '':'' \<and> c \<noteq> CHR ''/'') (drop 8 s))
          else None
      | _ \<Rightarrow> None)"

definition productionConfig :: config where
  "productionConfig = \<lparr>DEV_ENVIRONMENT = False, urlHostname = httpsHostname\<rparr>"

text \<open>
  The panel after it has loaded outside a development environment, on a page that has
  every element the script looks up; the Designer is the parent window.
\<close>

definition panelAtLoad :: panel where
  "panelAtLoad =
     \<lparr>currentSelectionState = Null, currentSelected = Null, devMockSelectionActive = False,
      analyzeProcessing = False, analyzeSelectionReady = False,
      designerMessageWindow = Some (Source 0 True), trustedDesignerOrigin = Null,
      designerOriginConfirmed = False,
      uiStatus = Some (''Waiting for a Designer selection...'', ''#8b949e''),
      uiSelectedLabel = Some (PlainLabel []), uiSelectionDebug = Some NoSelectionData,
      uiResultsHidden = Some True, uiAnalyzeButton = Some (True, AnalyzeSelection),
      uiDevBadge = Some ([], True),
      uiUniversalSize = NoPixels, uiDesktopSize = NoPixels, uiMobileSize = NoPixels,
      uiExplanation = Str [], requests = []\<rparr>"

text \<open>A descriptor whose host-supplied mobile width is the larger one.\<close>

definition widerOnMobile :: jsval where
  "widerOnMobile =
     Obj [(''tagName'', Str ''img''),
          (''widths'', Obj [(''desktop'', Num (Fin 320)), (''mobile'', Num (Fin 640))])]"

text \<open>The descriptor of the specification's example: 640 on desktop, 320 on mobile.\<close>

definition widerOnDesktop :: jsval where
  "widerOnDesktop =
     Obj [(''tagName'', Str ''img''),
          (''widths'', Obj [(''desktop'', Num (Fin 640)), (''mobile'', Num (Fin 320))])]"

text \<open>A descriptor with no widths at all.\<close>

definition noWidths :: jsval where
  "noWidths = Obj [(''tagName'', Str ''div''), (''id'', Str ''hero'')]"

text \<open>
  The panel after an analysis of a selection that has widths, whose results it shows, and
  then a selection without widths.
\<close>

definition resultsShownNoWidths :: panel where
  "resultsShownNoWidths =
     applySelectionState productionConfig parsesNothing noWidths
       (handleAnalyzeClick productionConfig parsesNothing (Json (Obj []))
          (applySelectionState productionConfig parsesNothing widerOnDesktop panelAtLoad))"

text \<open>A host page in which no selector and no id finds a node; the Designer shows desktop.\<close>

definition emptyPage :: host_page where
  "emptyPage = \<lparr>querySelector = (\<lambda>selector. None), getElementById = (\<lambda>ident. None),
                getCurrentDevice = ''desktop''\<rparr>"

text \<open>A payload marked as a mock, with a primary and no elements.\<close>

definition mockWithoutElements :: jsval where
  "mockWithoutElements =
     Obj [(''devMock'', Bool True), (''elements'', Arr []),
          (''primary'', Obj [(''id'', Str ''hero'')])]"

text \<open>A payload in the shape of a state whose primary is not its first element.\<close>

definition mismatchedState :: jsval where
  "mismatchedState =
     Obj [(''elements'', Arr [Obj [(''id'', Str ''first'')]]),
          (''primary'', Obj [(''id'', Str ''second'')])]"

text \<open>
  A bridge outside a development environment whose script origin cannot be derived, the
  window of a panel, its subscribe message, and the bridge after that message.
\<close>

definition panelWindow :: msg_source where
  "panelWindow = Source 1 True"

definition hostedConfig :: bridge_config where
  "hostedConfig =
     \<lparr>DEV_ENVIRONMENT = False, urlHostname = httpsHostname, scriptOrigin = None,
      postMessageThrows = (\<lambda>target origin. False)\<rparr>"

definition subscribeMessage :: message_event where
  "subscribeMessage =
     \<lparr>evOrigin = ''https://app.webflow-ext.com'', evSource = Some panelWindow,
      evData = Obj [(''type'', Str SUBSCRIBE_MESSAGE_TYPE)]\<rparr>"

definition subscribedBridge :: bridge where
  "subscribedBridge =
     handlePanelMessage hostedConfig parsesNothing emptyPage None subscribeMessage
       (bridgeLoaded hostedConfig True)"

text \<open>A payload marked as a mock whose descriptor has a host-supplied width of \<open>-5\<close>.\<close>

definition mockWithNegativeWidth :: jsval where
  "mockWithNegativeWidth =
     Obj [(''devMock'', Bool True),
          (''elements'', Arr [Obj [(''tagName'', Str ''img''),
                                   (''widths'', Obj [(''desktop'', Num (Fin (- 5)))])]]),
          (''primary'', Obj [(''tagName'', Str ''img''),
                             (''widths'', Obj [(''desktop'', Num (Fin (- 5)))])])]"




text \<open>
  A bridge outside a development environment whose script was loaded from a known
  origin, and a subscribe message from that origin and another window.
\<close>

definition servedConfig :: bridge_config where
  "servedConfig =
     \<lparr>DEV_ENVIRONMENT = False, urlHostname = httpsHostname,
      scriptOrigin = Some ''https://cdn.example.com'',
      postMessageThrows = (\<lambda>target origin. False)\<rparr>"

definition otherWindow :: msg_source where
  "otherWindow = Source 2 True"

definition otherOriginMessage :: message_event where
  "otherOriginMessage =
     \<lparr>evOrigin = ''https://cdn.example.com'', evSource = Some otherWindow,
      evData = Obj [(''type'', Str SUBSCRIBE_MESSAGE_TYPE)]\<rparr>"

section \<open>Width derivation\<close>

lemma toFiniteNumber_cases: "toFiniteNumber pf v = Null \<or> positiveFinite (toFiniteNumber pf v)"
  by (cases "(pf, v)" rule: toFiniteNumber.cases) (auto split: jsnum.splits)

lemma usable_truthy: "toFiniteNumber pf v \<noteq> Null \<Longrightarrow> truthy v"
  by (cases "(pf, v)" rule: toFiniteNumber.cases)
     (auto simp: parseFloat_def split: jsnum.splits if_splits)

lemma positiveFinite_truthy: "positiveFinite v \<Longrightarrow> truthy v \<and> \<not> nullish v"
  by (cases v rule: positiveFinite.cases) auto

lemma toFiniteNumber_truthy_iff: "truthy (toFiniteNumber pf v) = (toFiniteNumber pf v \<noteq> Null)"
  using toFiniteNumber_cases[of pf v] positiveFinite_truthy[of "toFiniteNumber pf v"] by auto

lemma toFiniteNumber_nullish_iff: "nullish (toFiniteNumber pf v) = (toFiniteNumber pf v = Null)"
  using toFiniteNumber_cases[of pf v] positiveFinite_truthy[of "toFiniteNumber pf v"] by auto

lemma getProp_truthy: "truthy (getProp v k) \<Longrightarrow> truthy v"
  by (cases "(v, k)" rule: getProp.cases) auto


lemma optProp_getProp: "optProp v k = getProp v k"
  by (cases "(v, k)" rule: getProp.cases) (auto simp: optProp_def)

lemma deriveMeasuredWidths_falsy: "\<not> truthy selection \<Longrightarrow> deriveMeasuredWidths pf selection = Null"
  by (simp add: deriveMeasuredWidths_def)



lemma nullish_toFiniteNumber: "nullish v \<Longrightarrow> toFiniteNumber pf v = Null"
  by (cases v rule: nullish.cases) auto

lemma nullish_falsy: "nullish v \<Longrightarrow> \<not> truthy v"
  by (cases v rule: nullish.cases) auto




lemma noWidthPresent_fails: "noWidthPresent selection \<Longrightarrow> deriveMeasuredWidths pf selection = Null"
  by (simp add: noWidthPresent_def deriveMeasuredWidths_def Let_def optProp_getProp
      nullish_falsy nullish_toFiniteNumber coalesce_def)







section \<open>The panel's display\<close>

text \<open>Each display operation is one update of the panel record.\<close>

lemma setStatus_alt:
  "setStatus message tone st =
     st\<lparr>uiStatus := map_option (\<lambda>old. (message, toneColor tone)) (uiStatus st)\<rparr>"
  by (simp add: setStatus_def split: option.splits)

lemma hideResults_alt:
  "hideResults st = st\<lparr>uiResultsHidden := map_option (\<lambda>old. True) (uiResultsHidden st)\<rparr>"
  by (simp add: hideResults_def split: option.splits)

lemma showResultsCard_alt:
  "showResultsCard st = st\<lparr>uiResultsHidden := map_option (\<lambda>old. False) (uiResultsHidden st)\<rparr>"
  by (simp add: showResultsCard_def split: option.splits)

lemma syncAnalyzeButtonState_alt:
  "syncAnalyzeButtonState st =
     st\<lparr>uiAnalyzeButton :=
          map_option (\<lambda>old. (analyzeProcessing st \<or> \<not> analyzeSelectionReady st,
                             if analyzeProcessing st then Analyzing else AnalyzeSelection))
            (uiAnalyzeButton st)\<rparr>"
  by (simp add: syncAnalyzeButtonState_def split: option.splits)

lemma updateDevBadge_alt:
  "updateDevBadge cfg st =
     st\<lparr>uiDevBadge :=
          map_option (\<lambda>old. if \<not> DEV_ENVIRONMENT cfg then (fst old, True)
                            else (''DEV Mock Mode Active'', False))
            (uiDevBadge st)\<rparr>"
  by (simp add: updateDevBadge_def split: option.splits prod.splits)

lemma updateSelectionDebug_alt:
  "updateSelectionDebug selection st =
     st\<lparr>uiSelectionDebug :=
          map_option (\<lambda>old. if \<not> truthy selection then NoSelectionData
                            else JsonOf (debugPayload selection))
            (uiSelectionDebug st)\<rparr>"
  by (simp add: updateSelectionDebug_def split: option.splits)

lemma updateSelectedLabel_alt:
  "updateSelectedLabel metadata st =
     (if uiSelectedLabel st \<noteq> None \<and> labelThrows metadata then None
      else Some (st\<lparr>uiSelectedLabel :=
             map_option (\<lambda>old. labelFor (currentSelectionState st) metadata) (uiSelectedLabel st)\<rparr>))"
  by (auto simp: updateSelectedLabel_def labelFor_def labelThrows_def Let_def split: option.splits)

lemmas ui_alt = setStatus_alt hideResults_alt showResultsCard_alt syncAnalyzeButtonState_alt
  updateDevBadge_alt updateSelectionDebug_alt updateSelectedLabel_alt setAnalyzeReady_def
  setAnalyzeProcessing_def

text \<open>What \<open>updateSelectionUI\<close> does is one \<open>repaint\<close>.\<close>

lemma map_option_idem: "(\<And>y. f (f y) = f y) \<Longrightarrow> map_option f (map_option f x) = map_option f x"
  by (cases x) auto

lemma paint_twice: "paint r l d h s (paint r l d h s st) = paint r l d h s st"
  by (cases l; cases d; cases s; cases h)
     (simp_all add: paint_def map_option_idem)

lemma paint_keeps:
  "currentSelected (paint r l d h s st) = currentSelected st"
  "currentSelectionState (paint r l d h s st) = currentSelectionState st"
  "devMockSelectionActive (paint r l d h s st) = devMockSelectionActive st"
  "uiDevBadge (paint r l d h s st) = uiDevBadge st"
  "analyzeProcessing (paint r l d h s st) = analyzeProcessing st"
  "designerOriginConfirmed (paint r l d h s st) = designerOriginConfirmed st"
  "trustedDesignerOrigin (paint r l d h s st) = trustedDesignerOrigin st"
  "designerMessageWindow (paint r l d h s st) = designerMessageWindow st"
  "requests (paint r l d h s st) = requests st"
  "(uiSelectedLabel (paint r l d h s st) = None) = (uiSelectedLabel st = None)"
  by (simp_all add: paint_def)

lemma setAnalyzeReady_paint: "setAnalyzeReady r st = paint r None None False None st"
  by (simp add: setAnalyzeReady_def syncAnalyzeButtonState_alt paint_def option.map_ident)

lemma label_paint:
  assumes "\<not> (uiSelectedLabel st \<noteq> None \<and> labelThrows m)"
  shows "updateSelectedLabel m (paint r None None False None st) =
         Some (paint r (Some (labelFor (currentSelectionState st) m)) None False None st)"
proof (cases "uiSelectedLabel st")
  case None
  then show ?thesis
    by (simp add: updateSelectedLabel_alt paint_def)
next
  case (Some l)
  with assms have "\<not> labelThrows m" by simp
  with Some show ?thesis
    by (simp add: updateSelectedLabel_alt paint_def)
qed

lemma label_throws:
  "uiSelectedLabel st \<noteq> None \<Longrightarrow> labelThrows m \<Longrightarrow>
   updateSelectedLabel m (paint r None None False None st) = None"
  by (auto simp: updateSelectedLabel_alt paint_def)

lemma debug_paint:
  "updateSelectionDebug v (paint r l None False None st) =
   paint r l (Some (if \<not> truthy v then NoSelectionData else JsonOf (debugPayload v))) False None st"
  by (cases l) (simp_all add: updateSelectionDebug_alt paint_def option.map_comp comp_def)

lemma hide_paint: "hideResults (paint r l d False None st) = paint r l d True None st"
  by (cases l; cases d) (simp_all add: hideResults_alt paint_def option.map_comp comp_def)

lemma status_paint:
  "setStatus m t (paint r l d h None st) = paint r l d h (Some (m, toneColor t)) st"
  by (cases l; cases d; cases h) (simp_all add: setStatus_alt paint_def option.map_comp comp_def)


lemma updateSelectionUI_repaint:
  "updateSelectionUI pf st =
   repaint pf (currentSelectionState st) (currentSelected st) (uiSelectedLabel st \<noteq> None) st"
proof (cases "truthy (currentSelected st)")
  case False
  have nothrow: "\<not> (uiSelectedLabel st \<noteq> None \<and> labelThrows (Str ''Waiting for a Designer selection...''))"
    by (simp add: labelThrows_def)
  have lf: "labelFor (currentSelectionState st) (Str ''Waiting for a Designer selection...'') =
      PlainLabel ''Waiting for a Designer selection...''"
    by (simp add: labelFor_def)
  from False show ?thesis
    by (simp add: updateSelectionUI_def Let_def repaint_def setAnalyzeReady_paint
        label_paint[OF nothrow] lf debug_paint hide_paint status_paint)
next
  case sel: True
  show ?thesis
  proof (cases "uiSelectedLabel st")
    case None
    then have "\<not> (uiSelectedLabel st \<noteq> None \<and> labelThrows (currentSelected st))" by simp
    note lp = label_paint[OF this, of True]
    from sel None show ?thesis
      by (simp add: updateSelectionUI_def Let_def repaint_def setAnalyzeReady_paint paint_keeps
          lp debug_paint hide_paint status_paint)
  next
    case (Some l)
    show ?thesis
    proof (cases "labelThrows (currentSelected st)")
      case True
      with Some have "updateSelectedLabel (currentSelected st) (paint True None None False None st) = None"
        by (simp add: label_throws)
      with sel True Some show ?thesis
        by (simp add: updateSelectionUI_def Let_def repaint_def setAnalyzeReady_paint paint_keeps)
    next
      case False
      then have "\<not> (uiSelectedLabel st \<noteq> None \<and> labelThrows (currentSelected st))" by simp
      note lp = label_paint[OF this, of True]
      from sel False Some show ?thesis
        by (simp add: updateSelectionUI_def Let_def repaint_def setAnalyzeReady_paint paint_keeps
            lp debug_paint hide_paint status_paint)
    qed
  qed
qed

lemma repaint_twice: "repaint pf a b c (repaint pf a b c st) = repaint pf a b c st"
  by (simp add: repaint_def paint_twice)

lemma repaint_keeps:
  "currentSelected (repaint pf a b c st) = currentSelected st"
  "currentSelectionState (repaint pf a b c st) = currentSelectionState st"
  "devMockSelectionActive (repaint pf a b c st) = devMockSelectionActive st"
  "uiDevBadge (repaint pf a b c st) = uiDevBadge st"
  "analyzeProcessing (repaint pf a b c st) = analyzeProcessing st"
  "designerOriginConfirmed (repaint pf a b c st) = designerOriginConfirmed st"
  "trustedDesignerOrigin (repaint pf a b c st) = trustedDesignerOrigin st"
  "designerMessageWindow (repaint pf a b c st) = designerMessageWindow st"
  "requests (repaint pf a b c st) = requests st"
  "(uiSelectedLabel (repaint pf a b c st) = None) = (uiSelectedLabel st = None)"
  by (simp_all add: repaint_def paint_keeps)

lemma updateSelectionUI_twice:
  "updateSelectionUI pf (updateSelectionUI pf st) = updateSelectionUI pf st"
  by (simp add: updateSelectionUI_repaint[of pf "repaint pf a b c st" for a b c]
      updateSelectionUI_repaint[of pf st] repaint_keeps repaint_twice)

lemma updateSelectionUI_keeps:
  "currentSelected (updateSelectionUI pf x) = currentSelected x"
  "currentSelectionState (updateSelectionUI pf x) = currentSelectionState x"
  "devMockSelectionActive (updateSelectionUI pf x) = devMockSelectionActive x"
  "uiDevBadge (updateSelectionUI pf x) = uiDevBadge x"
  "analyzeProcessing (updateSelectionUI pf x) = analyzeProcessing x"
  "designerOriginConfirmed (updateSelectionUI pf x) = designerOriginConfirmed x"
  "trustedDesignerOrigin (updateSelectionUI pf x) = trustedDesignerOrigin x"
  "designerMessageWindow (updateSelectionUI pf x) = designerMessageWindow x"
  "requests (updateSelectionUI pf x) = requests x"
  by (simp_all add: updateSelectionUI_repaint repaint_keeps)

lemma applySelectionState_twice:
  "applySelectionState cfg pf payload (applySelectionState cfg pf payload st) =
   applySelectionState cfg pf payload st"
proof -
  define ns where "ns = normalizeIncomingSelection payload"
  define g where "g = (\<lambda>old :: string \<times> bool. if \<not> DEV_ENVIRONMENT cfg then (fst old, True)
                            else (''DEV Mock Mode Active'', False))"
  define y where "y = updateDevBadge cfg
           (st\<lparr>currentSelectionState := ns,
               currentSelected := coalesce (optProp ns ''primary'') Null,
               devMockSelectionActive := truthy (optProp ns ''devMock'')\<rparr>)"
  let ?u = "updateSelectionUI pf y"
  have F: "applySelectionState cfg pf payload s =
      updateSelectionUI pf (updateDevBadge cfg
           (s\<lparr>currentSelectionState := ns,
               currentSelected := coalesce (optProp ns ''primary'') Null,
               devMockSelectionActive := truthy (optProp ns ''devMock'')\<rparr>))" for s
    by (simp add: applySelectionState_def Let_def ns_def)
  have fields: "currentSelectionState ?u = ns"
      "currentSelected ?u = coalesce (optProp ns ''primary'') Null"
      "devMockSelectionActive ?u = truthy (optProp ns ''devMock'')"
    by (simp_all add: updateSelectionUI_keeps y_def updateDevBadge_alt)
  have "?u\<lparr>currentSelectionState := currentSelectionState ?u,
           currentSelected := currentSelected ?u,
           devMockSelectionActive := devMockSelectionActive ?u\<rparr> = ?u"
    by simp
  then have S: "?u\<lparr>currentSelectionState := ns,
           currentSelected := coalesce (optProp ns ''primary'') Null,
           devMockSelectionActive := truthy (optProp ns ''devMock'')\<rparr> = ?u"
    by (simp only: fields)
  have gg: "g (g old) = g old" for old
    by (simp add: g_def)
  have badge: "uiDevBadge ?u = map_option g (uiDevBadge st)"
    by (simp add: updateSelectionUI_keeps y_def updateDevBadge_alt g_def)
  have "updateDevBadge cfg ?u = ?u\<lparr>uiDevBadge := map_option g (uiDevBadge ?u)\<rparr>"
    by (simp add: updateDevBadge_alt g_def)
  also have "map_option g (uiDevBadge ?u) = uiDevBadge ?u"
    by (simp add: badge map_option_idem gg)
  finally have B: "updateDevBadge cfg ?u = ?u"
    by simp
  have "applySelectionState cfg pf payload st = ?u"
    by (simp add: F y_def)
  moreover have "applySelectionState cfg pf payload ?u = ?u"
    by (simp only: F S B updateSelectionUI_twice)
  ultimately show ?thesis by simp
qed

lemma applySelectionState_keeps:
  "designerOriginConfirmed (applySelectionState cfg pf payload st) = designerOriginConfirmed st"
  "trustedDesignerOrigin (applySelectionState cfg pf payload st) = trustedDesignerOrigin st"
  "designerMessageWindow (applySelectionState cfg pf payload st) = designerMessageWindow st"
  "requests (applySelectionState cfg pf payload st) = requests st"
  by (simp_all add: applySelectionState_def Let_def updateSelectionUI_keeps updateDevBadge_alt)

lemma isTrusted_decision:
  "isTrustedDesignerMessage cfg event st =
     (case designerTrust cfg event
             (trustedDesignerOrigin st, designerOriginConfirmed st, designerMessageWindow st) of
        (ok, t, c, w) \<Rightarrow>
          (ok, st\<lparr>trustedDesignerOrigin := t, designerOriginConfirmed := c,
                  designerMessageWindow := w\<rparr>))"
  by (cases "designerMessageWindow st"; cases "evSource event"; cases "designerOriginConfirmed st")
     (simp_all add: isTrustedDesignerMessage_def designerTrust_def Let_def)

lemma designerTrust_again:
  "designerTrust cfg event trust = (ok, trust') \<Longrightarrow> designerTrust cfg event trust' = (ok, trust')"
  by (cases trust; cases trust')
     (auto simp: designerTrust_def Let_def split: if_splits option.splits)

lemma isTrusted_settled:
  assumes "designerTrust cfg event (t, c, w) = (ok, t, c, w)"
    and "trustedDesignerOrigin x = t" and "designerOriginConfirmed x = c"
    and "designerMessageWindow x = w"
  shows "isTrustedDesignerMessage cfg event x = (ok, x)"
  using assms by (simp add: isTrusted_decision)

lemma handleSelectionMessage_twice:
  "handleSelectionMessage cfg pf event (handleSelectionMessage cfg pf event st) =
   handleSelectionMessage cfg pf event st"
proof -
  obtain ok t c w where d: "designerTrust cfg event
      (trustedDesignerOrigin st, designerOriginConfirmed st, designerMessageWindow st) = (ok, t, c, w)"
    by (metis prod_cases4)
  define st1 where "st1 = st\<lparr>trustedDesignerOrigin := t, designerOriginConfirmed := c,
                  designerMessageWindow := w\<rparr>"
  have first: "isTrustedDesignerMessage cfg event st = (ok, st1)"
    by (simp add: isTrusted_decision d st1_def)
  have settled: "designerTrust cfg event (t, c, w) = (ok, t, c, w)"
    using d by (rule designerTrust_again)
  have again: "isTrustedDesignerMessage cfg event st1 = (ok, st1)"
    by (rule isTrusted_settled[OF settled]) (simp_all add: st1_def)
  let ?payload = "js_or (getProp (evData event) ''selection'')
                      (js_or (getProp (evData event) ''element'') Null)"
  have applied: "isTrustedDesignerMessage cfg event (applySelectionState cfg pf ?payload st1) =
        (ok, applySelectionState cfg pf ?payload st1)"
    by (rule isTrusted_settled[OF settled]) (simp_all add: applySelectionState_keeps st1_def)
  show ?thesis
  proof (cases "ok \<and> optProp (evData event) ''type'' = Str SELECTION_MESSAGE_TYPE")
    case False
    with first have h: "handleSelectionMessage cfg pf event st = st1"
      by (cases ok) (auto simp: handleSelectionMessage_def Let_def)
    from False again have "handleSelectionMessage cfg pf event st1 = st1"
      by (cases ok) (auto simp: handleSelectionMessage_def Let_def)
    with h show ?thesis by simp
  next
    case True
    from True first have h1: "handleSelectionMessage cfg pf event st =
        applySelectionState cfg pf ?payload st1"
      by (simp add: handleSelectionMessage_def Let_def)
    from True applied have "handleSelectionMessage cfg pf event (applySelectionState cfg pf ?payload st1) =
        applySelectionState cfg pf ?payload (applySelectionState cfg pf ?payload st1)"
      by (simp add: handleSelectionMessage_def Let_def)
    with h1 show ?thesis
      by (simp add: applySelectionState_twice)
  qed
qed

lemma panelAtLoad_applied:
  "currentSelected (applySelectionState productionConfig parsesNothing widerOnDesktop panelAtLoad) =
     widerOnDesktop"
  by code_simp

section \<open>Idempotence of applying a selection\<close>

text \<open>
  C8. Applying the same selection payload to the panel a second time changes nothing:
  the stored selection state and current selection, the ready flag and the Analyze
  button, the label, the debug box, the status line, the badge and the results card are
  all as the first application left them. The same holds for delivering the same message
  event twice through the message handler.
\<close>

theorem applySelectionState_idempotent:
  "applySelectionState cfg pf payload (applySelectionState cfg pf payload st) =
     applySelectionState cfg pf payload st \<and>
   handleSelectionMessage cfg pf event (handleSelectionMessage cfg pf event st) =
     handleSelectionMessage cfg pf event st"
  by (simp add: applySelectionState_twice handleSelectionMessage_twice)

theorem applySelectionState_idempotent_witness:
  "applySelectionState productionConfig parsesNothing widerOnDesktop
     (applySelectionState productionConfig parsesNothing widerOnDesktop panelAtLoad) =
   applySelectionState productionConfig parsesNothing widerOnDesktop panelAtLoad \<and>
   currentSelected (applySelectionState productionConfig parsesNothing widerOnDesktop panelAtLoad) =
     widerOnDesktop"
  using applySelectionState_idempotent[of productionConfig parsesNothing widerOnDesktop panelAtLoad]
    panelAtLoad_applied
  by blast

section \<open>Analysis\<close>

lemma analysisFailed_alt:
  "analysisFailed message st =
     st\<lparr>analyzeProcessing := False,
        uiStatus := map_option
          (\<lambda>old. (if message = [] then ''Unable to analyze the selected element.'' else message, ''#f87171''))
          (uiStatus st),
        uiResultsHidden := map_option (\<lambda>old. True) (uiResultsHidden st),
        uiAnalyzeButton := map_option
          (\<lambda>old. (\<not> analyzeSelectionReady st, AnalyzeSelection)) (uiAnalyzeButton st)\<rparr>"
  by (simp add: analysisFailed_def ui_alt toneColor_def)

lemma noWidths_shown:
  "truthy (currentSelected (applySelectionState productionConfig parsesNothing noWidths panelAtLoad))"
  "noWidthPresent
     (currentSelected (applySelectionState productionConfig parsesNothing noWidths panelAtLoad))"
  "requests (applySelectionState productionConfig parsesNothing noWidths panelAtLoad) = []"
  "uiStatus (applySelectionState productionConfig parsesNothing noWidths panelAtLoad) \<noteq> None"
  by code_simp+

text \<open>
  C5. When the user triggers an analysis and the current selection has no desktop and no
  mobile width (neither host-supplied nor computed), the panel issues no request: the
  list of requests is as before. It sets the status to the error message "Unable to
  determine rendered widths for the selected element." in the error colour and leaves
  the analysing state: the processing flag is off and the Analyze button reads "Analyze
  selection", enabled as the ready flag says. It also hides the results card. Nothing
  else of the panel changes, whatever the endpoint would have answered.
\<close>

theorem analyze_without_widths_fails_fast:
  assumes "truthy (currentSelected st)"
    and "noWidthPresent (currentSelected st)"
  shows "requests (handleAnalyzeClick cfg pf response st) = requests st \<and>
         handleAnalyzeClick cfg pf response st =
           st\<lparr>analyzeProcessing := False,
              uiStatus := map_option
                (\<lambda>old. (''Unable to determine rendered widths for the selected element.'', ''#f87171''))
                (uiStatus st),
              uiResultsHidden := map_option (\<lambda>old. True) (uiResultsHidden st),
              uiAnalyzeButton := map_option
                (\<lambda>old. (\<not> analyzeSelectionReady st, AnalyzeSelection)) (uiAnalyzeButton st)\<rparr>"
  using assms(1) noWidthPresent_fails[OF assms(2), of pf]
  by (simp add: handleAnalyzeClick_def analysisFailed_alt ui_alt Let_def
      option.map_comp comp_def)

theorem analyze_without_widths_fails_fast_witness:
  "truthy (currentSelected (applySelectionState productionConfig parsesNothing noWidths panelAtLoad)) \<and>
   noWidthPresent
     (currentSelected (applySelectionState productionConfig parsesNothing noWidths panelAtLoad)) \<and>
   requests (handleAnalyzeClick productionConfig parsesNothing (Json (Obj []))
     (applySelectionState productionConfig parsesNothing noWidths panelAtLoad)) = [] \<and>
   uiStatus (handleAnalyzeClick productionConfig parsesNothing (Json (Obj []))
     (applySelectionState productionConfig parsesNothing noWidths panelAtLoad)) =
     Some (''Unable to determine rendered widths for the selected element.'', ''#f87171'')"
  using analyze_without_widths_fails_fast[OF noWidths_shown(1,2), of productionConfig parsesNothing
      "Json (Obj [])"]
    noWidths_shown
  by auto

text \<open>
  The panel does not always return to the display it had: after an analysis whose results
  are shown and a new selection without widths, the results card is visible when the
  user clicks, and hidden afterwards.
\<close>

theorem analyze_without_widths_hides_results_counterexample:
  "truthy (currentSelected resultsShownNoWidths) \<and>
   noWidthPresent (currentSelected resultsShownNoWidths) \<and>
   uiResultsHidden resultsShownNoWidths = Some False \<and>
   uiResultsHidden
     (handleAnalyzeClick productionConfig parsesNothing (Json (Obj [])) resultsShownNoWidths) =
     Some True"
  by code_simp

text \<open>
  C3. When the recommendations hold no \<open>universalUploadSize\<close> and the measured desktop
  width is a positive number, the universal size the panel shows is twice the desktop
  width, rounded, whatever the mobile width is: not twice the larger of the two. The
  explanation shown next to it says that the largest width was doubled.
\<close>

theorem renderResults_universal_doubles_desktop:
  assumes "nullish (optProp recommendations ''universalUploadSize'')"
    and "0 < d"
  shows "uiUniversalSize (renderResults pf recommendations
           (Obj [(''desktop'', Num (Fin d)), (''mobile'', Num (Fin m))]) st) =
         Px (mathRound (d * 2))"
  using assms
  by (cases "optProp recommendations ''universalUploadSize''")
     (simp_all add: renderResults_def Let_def showResultsCard_alt optProp_getProp coalesce_def)

theorem renderResults_universal_doubles_desktop_witness:
  "nullish (optProp (Obj []) ''universalUploadSize'') \<and> (0::rat) < 320 \<and>
   deriveMeasuredWidths parsesNothing widerOnMobile =
     Obj [(''desktop'', Num (Fin 320)), (''mobile'', Num (Fin 640))] \<and>
   uiUniversalSize (renderResults parsesNothing (Obj [])
     (Obj [(''desktop'', Num (Fin 320)), (''mobile'', Num (Fin 640))]) panelAtLoad) = Px 640"
proof -
  have r: "mathRound (320 * 2) = 640"
    by code_simp
  have d: "deriveMeasuredWidths parsesNothing widerOnMobile =
     Obj [(''desktop'', Num (Fin 320)), (''mobile'', Num (Fin 640))]"
    by code_simp
  from renderResults_universal_doubles_desktop[of "Obj []" 320 parsesNothing 640 panelAtLoad] r d
  show ?thesis
    by (simp add: optProp_getProp)
qed

text \<open>
  For the descriptor with 320 on desktop and 640 on mobile, an analysis whose response is
  the empty object does not show twice the larger width.
\<close>

theorem renderResults_not_twice_the_larger:
  "uiUniversalSize (handleAnalyzeClick productionConfig parsesNothing (Json (Obj []))
     (applySelectionState productionConfig parsesNothing widerOnMobile panelAtLoad)) \<noteq>
   Px (mathRound (2 * max 320 640))"
  by code_simp

section \<open>The handshake retry loop\<close>

lemma retryBudget_init: "retryBudget (hsInitPanel hl) 0"
  by (simp add: retryBudget_def hsInitPanel_def startHandshakeRetries_def notifyContextReady_def
      requestSelectionUpdate_def)

lemma retryBudget_step:
  "retryBudget st k \<Longrightarrow> retryBudget (panelStep st e) (k + (if e = RefreshClick then 1 else 0))"
  by (cases e)
     (auto simp: retryBudget_def handshakeTick_def stopHandshakeRetries_def Let_def
        notifyContextReady_def requestSelectionUpdate_def hsHandleSelectionMessage_def
        refreshClicked_def startHandshakeRetries_def MAX_HANDSHAKE_ATTEMPTS_def
        split: option.splits)

lemma retryBudget_run:
  "retryBudget st k \<Longrightarrow> retryBudget (foldl panelStep st es) (k + refreshCount es)"
proof (induction es arbitrary: st k)
  case Nil
  then show ?case by (simp add: refreshCount_def)
next
  case (Cons e es)
  from retryBudget_step[OF Cons.prems, of e]
  have "retryBudget (foldl panelStep (panelStep st e) es)
          (k + (if e = RefreshClick then 1 else 0) + refreshCount es)"
    by (rule Cons.IH)
  then show ?case
    by (cases "e = RefreshClick") (simp_all add: refreshCount_def)
qed

lemma ticks_after_complete:
  "handshakeComplete st \<Longrightarrow> handshakeTimer st = None \<Longrightarrow>
   foldl panelStep st (replicate n TimerTick) = st"
  by (induction n) (auto simp: handshakeTick_def)

lemma selection_message_stops:
  assumes "optProp data ''type'' = Str SELECTION_MESSAGE_TYPE"
  shows "handshakeComplete (hsHandleSelectionMessage data st)"
    and "handshakeTimer (hsHandleSelectionMessage data st) = None"
    and "retryRounds (hsHandleSelectionMessage data st) = retryRounds st"
  using assms
  by (simp_all add: hsHandleSelectionMessage_def stopHandshakeRetries_def split: option.splits)

text \<open>
  C9. In every run of the panel, the rounds of subscribe/request messages that the retry
  timer has sent number at most 30 for the loop started at load and 30 more for each
  click on the refresh button. The timer, while it runs, has a period of 1000 ms. A
  selection message cancels it: the timer is cleared, and the ticks that follow send
  nothing.
\<close>

theorem handshake_retries_bounded:
  "retryRounds (panelRun hasLabel events) \<le> MAX_HANDSHAKE_ATTEMPTS * (1 + refreshCount events) \<and>
   (handshakeTimer (panelRun hasLabel events) = None \<or>
    handshakeTimer (panelRun hasLabel events) = Some 1000) \<and>
   (optProp data ''type'' = Str SELECTION_MESSAGE_TYPE \<longrightarrow>
      handshakeTimer (panelRun hasLabel (events @ [HostMessage data])) = None \<and>
      retryRounds (panelRun hasLabel (events @ HostMessage data # replicate n TimerTick)) =
        retryRounds (panelRun hasLabel events))"
proof -
  have "retryBudget (panelRun hasLabel events) (0 + refreshCount events)"
    unfolding panelRun_def by (rule retryBudget_run[OF retryBudget_init])
  then have bound: "retryRounds (panelRun hasLabel events) \<le> MAX_HANDSHAKE_ATTEMPTS * (1 + refreshCount events)"
    and timer: "handshakeTimer (panelRun hasLabel events) = None \<or>
                handshakeTimer (panelRun hasLabel events) = Some 1000"
    by (simp_all add: retryBudget_def)
  have stops: "handshakeTimer (panelRun hasLabel (events @ [HostMessage data])) = None \<and>
      retryRounds (panelRun hasLabel (events @ HostMessage data # replicate n TimerTick)) =
        retryRounds (panelRun hasLabel events)"
    if t: "optProp data ''type'' = Str SELECTION_MESSAGE_TYPE"
    using selection_message_stops[OF t, of "panelRun hasLabel events"]
    by (simp add: panelRun_def ticks_after_complete)
  from bound timer stops show ?thesis by blast
qed

theorem handshake_retries_bounded_witness:
  "retryRounds (panelRun True (replicate 40 TimerTick)) = 30 \<and>
   refreshCount (replicate 40 TimerTick) = 0 \<and>
   handshakeTimer (panelRun True (replicate 40 TimerTick)) = None \<and>
   optProp (Obj [(''type'', Str SELECTION_MESSAGE_TYPE)]) ''type'' = Str SELECTION_MESSAGE_TYPE \<and>
   retryRounds (panelRun True (replicate 3 TimerTick @
      HostMessage (Obj [(''type'', Str SELECTION_MESSAGE_TYPE)]) # replicate 5 TimerTick)) = 3"
proof -
  have a: "retryRounds (panelRun True (replicate 40 TimerTick)) = 30"
    by code_simp
  have b: "refreshCount (replicate 40 TimerTick) = 0"
    by code_simp
  have c: "handshakeTimer (panelRun True (replicate 40 TimerTick)) = None"
    by code_simp
  have d: "optProp (Obj [(''type'', Str SELECTION_MESSAGE_TYPE)]) ''type'' = Str SELECTION_MESSAGE_TYPE"
    by code_simp
  have e: "retryRounds (panelRun True (replicate 3 TimerTick)) = 3"
    by code_simp
  from handshake_retries_bounded[of True "replicate 3 TimerTick"
      "Obj [(''type'', Str SELECTION_MESSAGE_TYPE)]" 5] a b c d e
  show ?thesis by simp
qed

text \<open>
  The cap of 30 does not hold for every run: once the loop has stopped at the cap, a click
  on the refresh button restarts it with the attempts reset, and the next tick sends a
  31st round.
\<close>

theorem handshake_retries_exceed_cap_counterexample:
  "MAX_HANDSHAKE_ATTEMPTS <
     retryRounds (panelRun True (replicate 31 TimerTick @ [RefreshClick, TimerTick]))"
  by code_simp

section \<open>The primary of a selection state\<close>

lemma truthy_not_nullish: "truthy v \<Longrightarrow> \<not> nullish v"
  by (cases v) auto

lemma jsFind_filter: "jsFind truthy xs = firstItem (filter truthy xs)"
  by (induction xs) (auto simp: jsFind_def firstItem_def)

lemma firstItem_filter_truthy:
  "xs \<noteq> [] \<Longrightarrow> truthy (firstItem xs) \<Longrightarrow> firstItem (filter truthy xs) = firstItem xs"
  by (cases xs) (auto simp: firstItem_def)

lemma primaryIsFirst_array:
  "primaryIsFirst
     (Obj [(''elements'', Arr (filter truthy xs)),
           (''primary'', coalesce (jsFind truthy xs) Null),
           (''devMock'', d), (''reason'', r)])"
proof (cases "filter truthy xs")
  case Nil
  then show ?thesis
    by (simp add: primaryIsFirst_def Let_def jsFind_filter firstItem_def coalesce_def)
next
  case (Cons y ys)
  then have "y \<in> set (filter truthy xs)" by simp
  then have "truthy y" by simp
  with Cons show ?thesis
    by (simp add: primaryIsFirst_def Let_def jsFind_filter firstItem_def coalesce_def
        truthy_not_nullish)
qed

lemma primaryIsFirst_state:
  assumes "primaryIsFirst payload" and "truthy (getProp payload ''primary'')"
  shows "primaryIsFirst
     (Obj [(''elements'', Arr (if isArray (getProp payload ''elements'')
               then filter truthy (arrItems (getProp payload ''elements''))
               else filter truthy [getProp payload ''elements''])),
           (''primary'', getProp payload ''primary''),
           (''devMock'', d), (''reason'', r)])"
proof -
  from assms have arr: "isArray (getProp payload ''elements'')"
    and nonempty: "arrItems (getProp payload ''elements'') \<noteq> []"
    and first: "getProp payload ''primary'' = firstItem (arrItems (getProp payload ''elements''))"
    by (auto simp: primaryIsFirst_def Let_def truthy_not_nullish)
  from first assms(2) have "truthy (firstItem (arrItems (getProp payload ''elements'')))"
    by simp
  from firstItem_filter_truthy[OF nonempty this] nonempty arr first assms(2)
  show ?thesis
    by (cases "arrItems (getProp payload ''elements'')")
       (auto simp: primaryIsFirst_def Let_def firstItem_def)
qed

lemma normalizeIncomingSelection_primaryIsFirst:
  "keepsPrimaryFirst payload \<Longrightarrow>
   normalizeIncomingSelection payload = Null \<or> primaryIsFirst (normalizeIncomingSelection payload)"
proof (induction payload rule: normalizeIncomingSelection.induct)
  case (1 payload)
  consider (falsy) "\<not> truthy payload"
    | (arr) "truthy payload" "isArray payload"
    | (state) "truthy payload" "\<not> isArray payload"
        "truthy (getProp payload ''elements'') \<and> truthy (getProp payload ''primary'')"
    | (wrapped) "truthy payload" "\<not> isArray payload"
        "\<not> (truthy (getProp payload ''elements'') \<and> truthy (getProp payload ''primary''))"
        "truthy (getProp payload ''element'')"
    | (single) "truthy payload" "\<not> isArray payload"
        "\<not> (truthy (getProp payload ''elements'') \<and> truthy (getProp payload ''primary''))"
        "\<not> truthy (getProp payload ''element'')"
    by blast
  then show ?case
  proof cases
    case falsy
    then have "normalizeIncomingSelection payload = Null"
      by (subst normalizeIncomingSelection.simps) (simp del: normalizeIncomingSelection.simps)
    then show ?thesis by (simp del: normalizeIncomingSelection.simps)
  next
    case arr
    then have "normalizeIncomingSelection payload =
        Obj [(''elements'', Arr (filter truthy (arrItems payload))),
             (''primary'', coalesce (jsFind truthy (arrItems payload)) Null),
             (''devMock'', Bool (truthy (jsFind (\<lambda>item. truthy (optProp item ''devMock''))
                                     (arrItems payload)))),
             (''reason'', Null)]"
      by (subst normalizeIncomingSelection.simps) (simp del: normalizeIncomingSelection.simps)
    then show ?thesis
      by (simp del: normalizeIncomingSelection.simps add: primaryIsFirst_array)
  next
    case state
    then have shaped: "stateShaped payload"
      by (simp add: stateShaped_def)
    with state 1(2) have inv: "primaryIsFirst payload"
      by (subst (asm) keepsPrimaryFirst.simps) (simp del: keepsPrimaryFirst.simps)
    from state have nn: "\<not> nullish (getProp payload ''primary'')"
      by (simp add: truthy_not_nullish)
    from state nn have "\<exists>d r. normalizeIncomingSelection payload =
        Obj [(''elements'', Arr (if isArray (getProp payload ''elements'')
               then filter truthy (arrItems (getProp payload ''elements''))
               else filter truthy [getProp payload ''elements''])),
             (''primary'', getProp payload ''primary''),
             (''devMock'', d), (''reason'', r)]"
      by (subst normalizeIncomingSelection.simps)
         (simp del: normalizeIncomingSelection.simps add: Let_def coalesce_def)
    then obtain d r where "normalizeIncomingSelection payload =
        Obj [(''elements'', Arr (if isArray (getProp payload ''elements'')
               then filter truthy (arrItems (getProp payload ''elements''))
               else filter truthy [getProp payload ''elements''])),
             (''primary'', getProp payload ''primary''),
             (''devMock'', d), (''reason'', r)]"
      by blast
    with primaryIsFirst_state[OF inv, of d r] state show ?thesis
      by (simp del: normalizeIncomingSelection.simps)
  next
    case wrapped
    then have shaped: "\<not> stateShaped payload"
      by (auto simp: stateShaped_def)
    with wrapped 1(2) have "keepsPrimaryFirst (getProp payload ''element'')"
      by (subst (asm) keepsPrimaryFirst.simps) (simp del: keepsPrimaryFirst.simps)
    with wrapped 1(1) have IH: "normalizeIncomingSelection (getProp payload ''element'') = Null \<or>
        primaryIsFirst (normalizeIncomingSelection (getProp payload ''element''))"
      by blast
    from wrapped have c: "(truthy (getProp payload ''elements'') \<and>
        truthy (getProp payload ''primary'')) = False"
      by blast
    from wrapped have "normalizeIncomingSelection payload =
        normalizeIncomingSelection (getProp payload ''element'')"
      by (subst normalizeIncomingSelection.simps)
         (simp del: normalizeIncomingSelection.simps add: c)
    with IH show ?thesis by (simp del: normalizeIncomingSelection.simps)
  next
    case single
    from single have c: "(truthy (getProp payload ''elements'') \<and>
        truthy (getProp payload ''primary'')) = False"
      by blast
    from single have "normalizeIncomingSelection payload =
        (let element = coalesce (getProp payload ''primary'') payload in
         if \<not> truthy element then Null
         else Obj [(''elements'', Arr [element]),
                   (''primary'', element),
                   (''devMock'', Bool (truthy (js_or (getProp element ''devMock'')
                                                 (getProp payload ''devMock'')))),
                   (''reason'', coalesce (getProp payload ''reason'')
                                  (coalesce (getProp payload ''devMockReason'')
                                     (coalesce (getProp element ''reason'') Null)))])"
      by (subst normalizeIncomingSelection.simps)
         (simp del: normalizeIncomingSelection.simps add: c)
    then show ?thesis
      by (auto simp del: normalizeIncomingSelection.simps
          simp: primaryIsFirst_def Let_def firstItem_def truthy_not_nullish)
  qed
qed


lemma primaryIsFirst_fixed:
  "primaryIsFirst createEmptySelectionState"
  "primaryIsFirst (createDevSelectionState reason)"
  by (simp_all add: primaryIsFirst_def createEmptySelectionState_def createDevSelectionState_def
      Let_def firstItem_def)

lemma primaryIsFirst_built:
  "ys \<noteq> [] \<Longrightarrow> list_all truthy ys \<Longrightarrow>
   primaryIsFirst (Obj [(''elements'', Arr ys), (''primary'', coalesce (firstItem ys) Null),
                        (''devMock'', d)])"
  by (cases ys) (auto simp: primaryIsFirst_def Let_def firstItem_def coalesce_def truthy_not_nullish)

lemma normalizeSelectionState_primaryIsFirst:
  assumes "\<not> truthy (getProp payload ''devMock'')"
  shows "primaryIsFirst (normalizeSelectionState pf page payload)"
proof -
  let ?ys = "filter truthy (map (normalizeSelection pf page) (extractSelectionArray payload))"
  have all: "list_all truthy ?ys"
    by (simp add: list_all_iff)
  from assms have "normalizeSelectionState pf page payload =
      (if extractSelectionArray payload = [] \<or> ?ys = [] then createEmptySelectionState
       else Obj [(''elements'', Arr ?ys), (''primary'', coalesce (firstItem ?ys) Null),
                 (''devMock'', Bool False)])"
    by (auto simp: normalizeSelectionState_def Let_def)
  with primaryIsFirst_built[OF _ all] primaryIsFirst_fixed(1) show ?thesis
    by auto
qed

lemma normalizeSelectionState_passes_mock:
  assumes "primaryIsFirst payload"
  shows "primaryIsFirst (normalizeSelectionState pf page payload)"
proof (cases "truthy (getProp payload ''devMock'')")
  case False
  then show ?thesis by (rule normalizeSelectionState_primaryIsFirst)
next
  case True
  then have p: "truthy payload"
    by (rule getProp_truthy)
  from assms have arr: "isArray (getProp payload ''elements'')"
    by (simp add: primaryIsFirst_def Let_def)
  then have t: "truthy (getProp payload ''elements'')"
    by (cases "getProp payload ''elements''") auto
  from True p have "normalizeSelectionState pf page payload =
      Obj [(''elements'', js_or (getProp payload ''elements'') (Arr [])),
           (''primary'', js_or (getProp payload ''primary'') Null),
           (''devMock'', Bool True)]"
    by (simp add: normalizeSelectionState_def)
  with assms t show ?thesis
    by (auto simp: primaryIsFirst_def Let_def js_or_def)
qed

lemma primaryIsFirst_keeps:
  assumes "primaryIsFirst state" and "\<not> truthy (getProp state ''element'')"
  shows "keepsPrimaryFirst state"
  using assms
  by (subst keepsPrimaryFirst.simps) (simp del: keepsPrimaryFirst.simps)

lemma normalized_examples:
  "\<not> truthy (getProp (Arr [widerOnDesktop]) ''devMock'')"
  "getProp (normalizeSelectionState parsesNothing emptyPage (Arr [widerOnDesktop])) ''primary'' \<noteq> Null"
  "keepsPrimaryFirst (createDevSelectionState Undefined)"
  "normalizeIncomingSelection (createDevSelectionState Undefined) \<noteq> Null"
  by code_simp+

text \<open>
  C2. The empty state and the mock state keep the invariant of a selection state: the
  primary is absent or it is the first element. So does the state that
  \<open>normalizeSelectionState\<close> builds from a payload that is not marked as a mock; a
  payload marked as a mock is passed on as it is, and the result keeps the invariant
  when the payload does. In the panel, \<open>normalizeIncomingSelection\<close> returns null or a
  state that keeps the invariant, unless the payload (or the element it wraps) has the
  shape of a state and breaks the invariant itself; a state that keeps the invariant and
  wraps no element is never of that kind.
\<close>

theorem normalized_primary_is_first:
  "primaryIsFirst createEmptySelectionState \<and>
   primaryIsFirst (createDevSelectionState reason) \<and>
   (\<not> truthy (getProp payload ''devMock'') \<longrightarrow>
      primaryIsFirst (normalizeSelectionState pf page payload)) \<and>
   (primaryIsFirst payload \<longrightarrow> primaryIsFirst (normalizeSelectionState pf page payload)) \<and>
   (keepsPrimaryFirst received \<longrightarrow>
      normalizeIncomingSelection received = Null \<or>
      primaryIsFirst (normalizeIncomingSelection received)) \<and>
   (primaryIsFirst received \<and> \<not> truthy (getProp received ''element'') \<longrightarrow>
      keepsPrimaryFirst received)"
  using primaryIsFirst_fixed normalizeSelectionState_primaryIsFirst
    normalizeSelectionState_passes_mock normalizeIncomingSelection_primaryIsFirst
    primaryIsFirst_keeps
  by blast

theorem normalized_primary_is_first_witness:
  "\<not> truthy (getProp (Arr [widerOnDesktop]) ''devMock'') \<and>
   getProp (normalizeSelectionState parsesNothing emptyPage (Arr [widerOnDesktop])) ''primary'' \<noteq> Null \<and>
   primaryIsFirst (normalizeSelectionState parsesNothing emptyPage (Arr [widerOnDesktop])) \<and>
   keepsPrimaryFirst (createDevSelectionState Undefined) \<and>
   normalizeIncomingSelection (createDevSelectionState Undefined) \<noteq> Null \<and>
   primaryIsFirst (normalizeIncomingSelection (createDevSelectionState Undefined))"
  using normalized_primary_is_first[of Undefined "Arr [widerOnDesktop]" parsesNothing emptyPage
      "createDevSelectionState Undefined"]
    normalized_examples
  by blast

text \<open>
  The invariant does not hold for every payload. A payload marked as a mock, with a
  primary and no elements, comes out of \<open>normalizeSelectionState\<close> with a primary and
  no elements, and when the panel receives that state it keeps the primary and no
  elements. A received payload with elements and another primary comes out of
  \<open>normalizeIncomingSelection\<close> with that primary.
\<close>

theorem normalized_primary_not_first_counterexample:
  "\<not> primaryIsFirst (normalizeSelectionState parsesNothing emptyPage mockWithoutElements) \<and>
   normalizeIncomingSelection
     (broadcastPayload (normalizeSelectionState parsesNothing emptyPage mockWithoutElements)) \<noteq> Null \<and>
   \<not> primaryIsFirst (normalizeIncomingSelection
     (broadcastPayload (normalizeSelectionState parsesNothing emptyPage mockWithoutElements))) \<and>
   normalizeIncomingSelection mismatchedState \<noteq> Null \<and>
   \<not> primaryIsFirst (normalizeIncomingSelection mismatchedState)"
  by code_simp
section \<open>What the bridge broadcasts\<close>

lemma postsOnly_iff:
  "postsOnly p a b = (\<exists>new. posted b = posted a @ new \<and> list_all (carries p) new)"
proof
  assume "postsOnly p a b"
  then have "posted b = posted a @ postedSince a b \<and> list_all (carries p) (postedSince a b)"
    unfolding postsOnly_def postedSince_def
    by (metis append_take_drop_id)
  then show "\<exists>new. posted b = posted a @ new \<and> list_all (carries p) new"
    by blast
next
  assume "\<exists>new. posted b = posted a @ new \<and> list_all (carries p) new"
  then show "postsOnly p a b"
    by (auto simp: postsOnly_def postedSince_def)
qed

lemma postsOnly_same: "posted b = posted a \<Longrightarrow> postsOnly p a b"
  by (simp add: postsOnly_iff)

lemma postsOnly_trans: "postsOnly p a b \<Longrightarrow> postsOnly p b c \<Longrightarrow> postsOnly p a c"
  by (auto simp: postsOnly_iff)

lemma carries_mono: "carries p x \<Longrightarrow> (\<And>s. p s \<Longrightarrow> q s) \<Longrightarrow> carries q x"
  by (cases x) (simp add: carries_def)

lemma postsOnly_mono: "postsOnly p a b \<Longrightarrow> (\<And>s. p s \<Longrightarrow> q s) \<Longrightarrow> postsOnly q a b"
  unfolding postsOnly_iff list_all_iff using carries_mono by blast

lemma sameTrust_refl: "sameTrust a a"
  by (simp add: sameTrust_def)

lemma sameTrust_trans: "sameTrust a b \<Longrightarrow> sameTrust b c \<Longrightarrow> sameTrust a c"
  by (simp add: sameTrust_def)

lemma selection_of_message: "getProp (selectionMessage s) ''selection'' = s"
  by (simp add: selectionMessage_def)

text \<open>Posting to one panel.\<close>

lemma postToPanel_frame:
  "postToPanel cfg target s originOverride st = (ok, st') \<Longrightarrow>
   sameTrust st st' \<and> subscribers st' = subscribers st \<and>
   subscriberOrigins st' = subscriberOrigins st \<and>
   latestSelectionState st' = latestSelectionState st \<and>
   devMockActive st' = devMockActive st \<and>
   (posted st' = posted st \<or> (\<exists>origin. posted st' = posted st @ [(target, selectionMessage s, origin)]))"
  by (auto simp: postToPanel_def sameTrust_def split: option.splits if_splits)

lemma postToPanel_posts: "p s \<Longrightarrow> postsOnly p st (snd (postToPanel cfg target s originOverride st))"
  using postToPanel_frame[of cfg target s originOverride st]
  by (cases "postToPanel cfg target s originOverride st")
     (auto simp: postsOnly_iff carries_def selection_of_message)

lemma notifySubscriber_frame:
  "sameTrust st (notifySubscriber cfg s st subscriber) \<and>
   latestSelectionState (notifySubscriber cfg s st subscriber) = latestSelectionState st \<and>
   devMockActive (notifySubscriber cfg s st subscriber) = devMockActive st \<and>
   (posted (notifySubscriber cfg s st subscriber) = posted st \<or>
    (\<exists>origin. posted (notifySubscriber cfg s st subscriber) =
       posted st @ [(subscriber, selectionMessage s, origin)]))"
proof (cases "originOr (subscriberOrigins st subscriber) None")
  case None
  then show ?thesis
    by (simp add: notifySubscriber_def sameTrust_def)
next
  case (Some origin)
  obtain ok st' where p: "postToPanel cfg subscriber s (Some origin) st = (ok, st')"
    by (cases "postToPanel cfg subscriber s (Some origin) st")
  from postToPanel_frame[OF p] Some p show ?thesis
    by (cases ok) (auto simp: notifySubscriber_def sameTrust_def)
qed

lemma notifyAll_frame:
  "sameTrust st (foldl (notifySubscriber cfg s) st xs) \<and>
   latestSelectionState (foldl (notifySubscriber cfg s) st xs) = latestSelectionState st \<and>
   devMockActive (foldl (notifySubscriber cfg s) st xs) = devMockActive st \<and>
   (p s \<longrightarrow> postsOnly p st (foldl (notifySubscriber cfg s) st xs))"
proof (induction xs arbitrary: st)
  case Nil
  then show ?case by (simp add: sameTrust_refl postsOnly_same)
next
  case (Cons x xs)
  let ?st1 = "notifySubscriber cfg s st x"
  from notifySubscriber_frame[of st cfg s x]
  have one: "sameTrust st ?st1" "latestSelectionState ?st1 = latestSelectionState st"
    "devMockActive ?st1 = devMockActive st" "p s \<longrightarrow> postsOnly p st ?st1"
    by (auto simp: postsOnly_iff carries_def selection_of_message)
  from Cons.IH[of ?st1] one show ?case
    by (auto intro: sameTrust_trans postsOnly_trans)
qed

lemma broadcastSelection_alt:
  "broadcastSelection cfg s st =
     foldl (notifySubscriber cfg (broadcastPayload s))
       (st\<lparr>latestSelectionState := broadcastPayload s\<rparr>) (subscribers st)"
  by (simp add: broadcastSelection_def broadcastPayload_def Let_def)

lemma broadcastSelection_frame:
  "sameTrust st (broadcastSelection cfg s st) \<and>
   latestSelectionState (broadcastSelection cfg s st) = broadcastPayload s \<and>
   devMockActive (broadcastSelection cfg s st) = devMockActive st \<and>
   (p (broadcastPayload s) \<longrightarrow> postsOnly p st (broadcastSelection cfg s st))"
  using notifyAll_frame[of "st\<lparr>latestSelectionState := broadcastPayload s\<rparr>" cfg
      "broadcastPayload s" "subscribers st" p]
  by (simp add: broadcastSelection_alt sameTrust_def postsOnly_def postedSince_def)


text \<open>Widths of the descriptors the bridge builds.\<close>

lemma mathRound_nonneg: "0 < q \<Longrightarrow> 0 \<le> mathRound q"
  by (simp add: mathRound_def)

lemma positive_round:
  assumes "0 < q" and "truthy (Num (Fin (of_int (mathRound q))))"
  shows "wholePixels (Num (Fin (of_int (mathRound q))))"
  using assms mathRound_nonneg[of q] by auto

lemma toPositiveNumber_ok:
  assumes "truthy (toPositiveNumber pf v)"
  shows "wholePixels (toPositiveNumber pf v)"
  using assms positive_round
  by (cases "(pf, v)" rule: toPositiveNumber.cases) (auto split: jsnum.splits if_splits)

lemma update_all:
  "list_all (\<lambda>kv. P (snd kv)) acc \<Longrightarrow> P v \<Longrightarrow> list_all (\<lambda>kv. P (snd kv)) (AList.update k v acc)"
  by (induction acc) auto

lemma map_of_all: "list_all (\<lambda>kv. P (snd kv)) acc \<Longrightarrow> map_of acc k = Some v \<Longrightarrow> P v"
  by (induction acc) (auto split: if_splits)

lemma sanitized_all:
  "list_all (\<lambda>kv. wholePixels (snd kv)) acc \<Longrightarrow>
   list_all (\<lambda>kv. wholePixels (snd kv))
     (foldl (\<lambda>acc key.
               let value = toPositiveNumber pf (getProp widths key) in
               if truthy value then AList.update key value acc else acc) acc keys)"
  by (induction keys arbitrary: acc) (auto simp: Let_def update_all toPositiveNumber_ok)

lemma getProp_all:
  "list_all (\<lambda>kv. wholePixels (snd kv)) kvs \<Longrightarrow> widthValueOk (getProp (Obj kvs) k)"
  by (auto simp: widthValueOk_def split: option.splits dest: map_of_all)

lemma sanitizeWidths_ok: "widthValueOk (getProp (sanitizeWidths pf widths) k)"
proof -
  define sanitized where "sanitized =
     foldl (\<lambda>acc key.
              let value = toPositiveNumber pf (getProp widths key) in
              if truthy value then AList.update key value acc else acc)
       [] [''desktop'', ''tablet'', ''mobile'']"
  have "list_all (\<lambda>kv. wholePixels (snd kv)) sanitized"
    unfolding sanitized_def by (rule sanitized_all) simp
  then have ok: "widthValueOk (getProp (Obj sanitized) k)"
    by (rule getProp_all)
  have "sanitizeWidths pf widths = Null \<or> sanitizeWidths pf widths = Obj sanitized"
    unfolding sanitizeWidths_def sanitized_def Let_def by (simp del: foldl.simps)
  with ok show ?thesis
    by (auto simp: widthValueOk_def)
qed

lemma getProp_update:
  "getProp (Obj (AList.update k v kvs)) k' = (if k' = k then v else getProp (Obj kvs) k')"
  by (simp add: update_conv')

lemma setProp_obj: "\<exists>kvs'. setProp k v (Obj kvs) = Obj kvs'"
  by simp

lemma createSerializableSelection_obj: "\<exists>kvs. createSerializableSelection pf source = Obj kvs"
  by (auto simp: createSerializableSelection_def Let_def)

lemma serializable_widths:
  "widthValueOk (getProp (getProp (createSerializableSelection pf source) ''widths'') k)"
  using sanitizeWidths_ok[of pf "getProp source ''widths''" k]
  by (auto simp: createSerializableSelection_def Let_def update_conv' widthValueOk_def)

lemma computeBoundingWidths_ok: "widthValueOk (getProp (computeBoundingWidths pf page node) k)"
  by (cases node)
     (auto simp: computeBoundingWidths_def Let_def widthValueOk_def update_conv' toPositiveNumber_ok)

lemma normalizeSelection_widths: "descriptorWidthsOk (normalizeSelection pf page selectedElement)"
proof (cases "truthy selectedElement")
  case False
  then show ?thesis
    by (simp add: normalizeSelection_def descriptorWidthsOk_def widthValueOk_def optProp_def)
next
  case True
  obtain kvs where base: "createSerializableSelection pf selectedElement = Obj kvs"
    using createSerializableSelection_obj by blast
  from serializable_widths[of pf selectedElement] base
  have w: "widthValueOk (getProp (getProp (Obj kvs) ''widths'') k)" for k
    by simp
  note c = computeBoundingWidths_ok
  from True base show ?thesis
    by (simp add: normalizeSelection_def Let_def descriptorWidthsOk_def optProp_getProp
        getProp_update w c del: getProp.simps)
qed


lemma descriptorWidthsOk_absent: "descriptorWidthsOk Null" "descriptorWidthsOk Undefined"
  by (simp_all add: descriptorWidthsOk_def widthValueOk_def optProp_def)

lemma stateWidthsOk_fixed:
  "stateWidthsOk createEmptySelectionState"
  "stateWidthsOk (createDevSelectionState reason)"
  by (simp_all add: stateWidthsOk_def createEmptySelectionState_def createDevSelectionState_def
      mockElement_def descriptorWidthsOk_def widthValueOk_def optProp_def)

lemma stateWidthsOk_built:
  "list_all descriptorWidthsOk ys \<Longrightarrow>
   stateWidthsOk (Obj [(''elements'', Arr ys), (''primary'', coalesce (firstItem ys) Null),
                       (''devMock'', d)])"
  by (cases ys) (auto simp: stateWidthsOk_def firstItem_def coalesce_def descriptorWidthsOk_absent)

lemma stateWidthsOk_normalized:
  assumes "\<not> truthy (getProp payload ''devMock'')"
  shows "stateWidthsOk (normalizeSelectionState pf page payload)"
proof -
  let ?ys = "filter truthy (map (normalizeSelection pf page) (extractSelectionArray payload))"
  have all: "list_all descriptorWidthsOk ?ys"
    using normalizeSelection_widths by (auto simp: list_all_iff)
  from assms have "normalizeSelectionState pf page payload =
      (if extractSelectionArray payload = [] \<or> ?ys = [] then createEmptySelectionState
       else Obj [(''elements'', Arr ?ys), (''primary'', coalesce (firstItem ?ys) Null),
                 (''devMock'', Bool False)])"
    by (auto simp: normalizeSelectionState_def Let_def)
  with stateWidthsOk_built[OF all] stateWidthsOk_fixed(1) show ?thesis
    by auto
qed

lemma stateWidthsOk_passes_mock:
  assumes "stateWidthsOk payload"
  shows "stateWidthsOk (normalizeSelectionState pf page payload)"
proof (cases "truthy (getProp payload ''devMock'')")
  case False
  then show ?thesis by (rule stateWidthsOk_normalized)
next
  case True
  then have p: "truthy payload"
    by (rule getProp_truthy)
  from True p have "normalizeSelectionState pf page payload =
      Obj [(''elements'', js_or (getProp payload ''elements'') (Arr [])),
           (''primary'', js_or (getProp payload ''primary'') Null),
           (''devMock'', Bool True)]"
    by (simp add: normalizeSelectionState_def)
  with assms show ?thesis
    by (auto simp: stateWidthsOk_def js_or_def descriptorWidthsOk_absent)
qed

lemma getProp_setProp_other: "k' \<noteq> k \<Longrightarrow> getProp (setProp k v x) k' = getProp x k'"
  by (cases "(k, v, x)" rule: setProp.cases) (simp_all add: update_conv')

lemma stateWidthsOk_broadcastPayload: "stateWidthsOk s \<Longrightarrow> stateWidthsOk (broadcastPayload s)"
  using stateWidthsOk_fixed(1)
  by (auto simp: broadcastPayload_def Let_def coalesce_def stateWidthsOk_def getProp_setProp_other)

lemma broadcast_valid:
  assumes "stateWidthsOk s"
  shows "stateWidthsOk (latestSelectionState (broadcastSelection cfg s st))"
    and "postsOnly stateWidthsOk st (broadcastSelection cfg s st)"
  using broadcastSelection_frame[of st cfg s stateWidthsOk] stateWidthsOk_broadcastPayload[OF assms]
  by simp_all

lemma handleSelectionChange_alt:
  "handleSelectionChange cfg pf page payload st =
     broadcastSelection cfg (normalizeSelectionState pf page payload)
       (if \<not> truthy (getProp (normalizeSelectionState pf page payload) ''devMock'')
        then st\<lparr>devMockActive := False, designerScriptSupported := True\<rparr> else st)"
  by (simp add: handleSelectionChange_def Let_def)

lemma handleSelectionChange_valid:
  assumes "stateWidthsOk (normalizeSelectionState pf page payload)"
  shows "stateWidthsOk (latestSelectionState (handleSelectionChange cfg pf page payload st))"
    and "postsOnly stateWidthsOk st (handleSelectionChange cfg pf page payload st)"
proof -
  let ?st1 = "if \<not> truthy (getProp (normalizeSelectionState pf page payload) ''devMock'')
        then st\<lparr>devMockActive := False, designerScriptSupported := True\<rparr> else st"
  have same: "postsOnly stateWidthsOk st ?st1"
    by (rule postsOnly_same) simp
  from broadcast_valid[OF assms, where cfg = cfg and st = ?st1]
  show "stateWidthsOk (latestSelectionState (handleSelectionChange cfg pf page payload st))"
    and "postsOnly stateWidthsOk st (handleSelectionChange cfg pf page payload st)"
    unfolding handleSelectionChange_alt using same by (auto intro: postsOnly_trans)
qed

lemma subscribed_examples:
  "\<not> truthy (getProp (Arr [widerOnDesktop]) ''devMock'')"
  "postedSince subscribedBridge
     (handleSelectionChange hostedConfig parsesNothing emptyPage (Arr [widerOnDesktop])
        subscribedBridge) \<noteq> []"
  "getProp (getProp (latestSelectionState
     (handleSelectionChange hostedConfig parsesNothing emptyPage (Arr [widerOnDesktop])
        subscribedBridge)) ''primary'') ''widths'' =
   Obj [(''desktop'', Num (Fin 640)), (''mobile'', Num (Fin 320))]"
  by code_simp+

text \<open>
  C7. Every descriptor that \<open>normalizeSelection\<close> builds has width values the data
  model allows: each of the host widths, the computed widths and their two flattened
  copies is absent or a positive whole number of pixels. So have the empty state and the
  mock state, and the state \<open>normalizeSelectionState\<close> returns for a payload that is
  not marked as a mock, or that is a state with such widths already. When such a state is
  broadcast, by \<open>handleSelectionChange\<close> or by \<open>broadcastSelection\<close>, the latest
  state and every message posted carry only such widths.
\<close>

theorem broadcast_widths_sanitized:
  "descriptorWidthsOk (normalizeSelection pf page selectedElement) \<and>
   stateWidthsOk createEmptySelectionState \<and>
   stateWidthsOk (createDevSelectionState reason) \<and>
   (\<not> truthy (getProp payload ''devMock'') \<or> stateWidthsOk payload \<longrightarrow>
      stateWidthsOk (normalizeSelectionState pf page payload) \<and>
      stateWidthsOk (latestSelectionState (handleSelectionChange cfg pf page payload st)) \<and>
      postsOnly stateWidthsOk st (handleSelectionChange cfg pf page payload st)) \<and>
   (stateWidthsOk state \<longrightarrow>
      stateWidthsOk (latestSelectionState (broadcastSelection cfg state st)) \<and>
      postsOnly stateWidthsOk st (broadcastSelection cfg state st))"
proof -
  have "stateWidthsOk (normalizeSelectionState pf page payload)"
    if "\<not> truthy (getProp payload ''devMock'') \<or> stateWidthsOk payload"
    using that stateWidthsOk_normalized stateWidthsOk_passes_mock by blast
  with normalizeSelection_widths stateWidthsOk_fixed handleSelectionChange_valid broadcast_valid
  show ?thesis by blast
qed

theorem broadcast_widths_sanitized_witness:
  "\<not> truthy (getProp (Arr [widerOnDesktop]) ''devMock'') \<and>
   postedSince subscribedBridge
     (handleSelectionChange hostedConfig parsesNothing emptyPage (Arr [widerOnDesktop])
        subscribedBridge) \<noteq> [] \<and>
   getProp (getProp (latestSelectionState
     (handleSelectionChange hostedConfig parsesNothing emptyPage (Arr [widerOnDesktop])
        subscribedBridge)) ''primary'') ''widths'' =
   Obj [(''desktop'', Num (Fin 640)), (''mobile'', Num (Fin 320))] \<and>
   postsOnly stateWidthsOk subscribedBridge
     (handleSelectionChange hostedConfig parsesNothing emptyPage (Arr [widerOnDesktop])
        subscribedBridge)"
  using broadcast_widths_sanitized[of parsesNothing emptyPage Undefined Undefined
      "Arr [widerOnDesktop]" hostedConfig subscribedBridge Null]
    subscribed_examples
  by blast

text \<open>
  A payload marked as a mock is passed on as it is: with a host-supplied width of \<open>-5\<close>
  in it, the state that the subscribed panel is sent carries that width.
\<close>

theorem broadcast_widths_unsanitized_counterexample:
  "postedSince subscribedBridge
     (handleSelectionChange hostedConfig parsesNothing emptyPage mockWithNegativeWidth
        subscribedBridge) \<noteq> [] \<and>
   \<not> postsOnly stateWidthsOk subscribedBridge
     (handleSelectionChange hostedConfig parsesNothing emptyPage mockWithNegativeWidth
        subscribedBridge) \<and>
   getProp (getProp (getProp (latestSelectionState
     (handleSelectionChange hostedConfig parsesNothing emptyPage mockWithNegativeWidth
        subscribedBridge)) ''primary'') ''widths'') ''desktop'' = Num (Fin (- 5))"
  by code_simp


section \<open>The mock selection\<close>

text \<open>The mock state.\<close>

lemma isFixedMock_dev:
  "isFixedMock (createDevSelectionState reason)"
  "isFixedMock (setProp ''devMockReason'' v (createDevSelectionState reason))"
  by (simp_all add: isFixedMock_def createDevSelectionState_def mockElement_def)

lemma isFixedMock_marked: "isFixedMock s \<Longrightarrow> getProp s ''devMock'' = Bool True \<and> \<not> nullish s"
  by (cases s) (auto simp: isFixedMock_def split: jsval.splits list.splits)

lemma broadcastPayload_mock: "isFixedMock s \<Longrightarrow> broadcastPayload s = s"
  using isFixedMock_marked[of s] by (simp add: broadcastPayload_def coalesce_def Let_def)

lemma broadcastPayload_unmarked:
  "\<not> truthy (getProp s ''devMock'') \<Longrightarrow> \<not> truthy (getProp (broadcastPayload s) ''devMock'')"
  by (cases "coalesce s createEmptySelectionState")
     (auto simp: broadcastPayload_def Let_def coalesce_def createEmptySelectionState_def
        update_conv' split: if_splits)

lemma broadcast_mock:
  assumes "isFixedMock s"
  shows "latestSelectionState (broadcastSelection cfg s st) = s"
    and "devMockActive (broadcastSelection cfg s st) = devMockActive st"
    and "postsOnly isFixedMock st (broadcastSelection cfg s st)"
    and "sameTrust st (broadcastSelection cfg s st)"
  using broadcastSelection_frame[of st cfg s isFixedMock] broadcastPayload_mock[OF assms] assms
  by simp_all

lemma maybeActivateDevMock_off: "\<not> DEV_ENVIRONMENT cfg \<Longrightarrow> maybeActivateDevMock cfg reason st = st"
  by (simp add: maybeActivateDevMock_def)

lemma maybeActivateDevMock_on:
  assumes "DEV_ENVIRONMENT cfg"
  shows "devMockActive (maybeActivateDevMock cfg reason st)"
    and "truthy (getProp (latestSelectionState (maybeActivateDevMock cfg reason st)) ''devMock'')"
    and "mockIsFixed st \<Longrightarrow> isFixedMock (latestSelectionState (maybeActivateDevMock cfg reason st))"
    and "postsOnly isFixedMock st (maybeActivateDevMock cfg reason st)"
    and "sameTrust st (maybeActivateDevMock cfg reason st)"
proof -
  let ?mock = "setProp ''devMockReason'' (coalesce reason Null) (createDevSelectionState reason)"
  let ?st1 = "st\<lparr>devMockActive := True\<rparr>"
  have m: "isFixedMock ?mock"
    by (rule isFixedMock_dev)
  note b = broadcast_mock[OF m, where cfg = cfg and st = ?st1]
  have same: "postsOnly isFixedMock st ?st1" "sameTrust st ?st1"
    by (simp_all add: postsOnly_same sameTrust_def)
  show "devMockActive (maybeActivateDevMock cfg reason st)"
    using assms b by (simp add: maybeActivateDevMock_def)
  show "truthy (getProp (latestSelectionState (maybeActivateDevMock cfg reason st)) ''devMock'')"
    using assms b isFixedMock_marked[OF m] by (simp add: maybeActivateDevMock_def optProp_getProp)
  show "isFixedMock (latestSelectionState (maybeActivateDevMock cfg reason st))" if "mockIsFixed st"
    using assms b m that by (simp add: maybeActivateDevMock_def mockIsFixed_def)
  have p: "postsOnly isFixedMock st (broadcastSelection cfg ?mock ?st1)"
    using same(1) b(3) by (rule postsOnly_trans)
  have t: "sameTrust st (broadcastSelection cfg ?mock ?st1)"
    using same(2) b(4) by (rule sameTrust_trans)
  show "postsOnly isFixedMock st (maybeActivateDevMock cfg reason st)"
    using assms p by (simp add: maybeActivateDevMock_def postsOnly_same)
  show "sameTrust st (maybeActivateDevMock cfg reason st)"
    using assms t by (simp add: maybeActivateDevMock_def sameTrust_refl)
qed






lemma maybeActivateDevMock_sameTrust: "sameTrust st (maybeActivateDevMock cfg reason st)"
  using maybeActivateDevMock_on(5)[where cfg = cfg and st = st and reason = reason]
    maybeActivateDevMock_off[of cfg reason st]
  by (cases "DEV_ENVIRONMENT cfg") (simp_all add: sameTrust_refl)

lemma fetchCurrentSelection_state:
  "snd (fetchCurrentSelection cfg pf page rt st) = st \<or>
   (\<exists>reason. snd (fetchCurrentSelection cfg pf page rt st) = maybeActivateDevMock cfg reason st)"
  by (auto simp: fetchCurrentSelection_def fetchFailed_def split: option.splits call.splits)

lemma fetchCurrentSelection_sameTrust: "sameTrust st (snd (fetchCurrentSelection cfg pf page rt st))"
  using fetchCurrentSelection_state[of cfg pf page rt st] maybeActivateDevMock_sameTrust
  by (auto simp: sameTrust_refl)

lemma fetchAndBroadcastSelection_sameTrust:
  "sameTrust st (fetchAndBroadcastSelection cfg pf page rt st)"
proof -
  obtain s st1 where f: "fetchCurrentSelection cfg pf page rt st = (s, st1)"
    by (cases "fetchCurrentSelection cfg pf page rt st")
  with fetchCurrentSelection_sameTrust[of st cfg pf page rt] have "sameTrust st st1"
    by simp
  moreover have "sameTrust st1 (broadcastSelection cfg s st1)"
    using broadcastSelection_frame[of st1 cfg s "\<lambda>s. True"] by simp
  ultimately show ?thesis
    using f by (auto simp: fetchAndBroadcastSelection_def intro: sameTrust_trans)
qed

text \<open>Registering a subscriber and the trust check.\<close>

lemma registerSubscriber_frame:
  "registerSubscriber event st = (source, st') \<Longrightarrow>
   trustedPanelOrigin st' = trustedPanelOrigin st \<and>
   panelOriginConfirmed st' = panelOriginConfirmed st \<and>
   (trustedPanelWindow st = Some w \<longrightarrow> trustedPanelWindow st' = Some w) \<and>
   latestSelectionState st' = latestSelectionState st \<and>
   devMockActive st' = devMockActive st \<and>
   posted st' = posted st"
  by (auto simp: registerSubscriber_def split: option.splits if_splits)

lemma isTrustedPanelMessage_frame:
  "isTrustedPanelMessage cfg event st = (ok, st') \<Longrightarrow>
   latestSelectionState st' = latestSelectionState st \<and>
   devMockActive st' = devMockActive st \<and>
   posted st' = posted st \<and>
   subscribers st' = subscribers st \<and>
   (trustedPanelWindow st = Some w \<longrightarrow> trustedPanelWindow st' = Some w)"
  by (auto simp: isTrustedPanelMessage_def Let_def split: if_splits option.splits prod.splits)

lemma isTrustedPanelMessage_pins:
  assumes "\<not> panelOriginConfirmed st" and "evOrigin event \<noteq> []"
    and "isAllowedPanelOrigin cfg (evOrigin event)"
  shows "originPinned (evOrigin event) (snd (isTrustedPanelMessage cfg event st))"
  using assms
  by (auto simp: isTrustedPanelMessage_def Let_def originPinned_def
      split: if_splits option.splits prod.splits)

lemma isTrustedPanelMessage_pinned:
  assumes "originPinned origin st"
  shows "originPinned origin (snd (isTrustedPanelMessage cfg event st))"
    and "evOrigin event \<noteq> origin \<Longrightarrow> isTrustedPanelMessage cfg event st = (False, st)"
  using assms
  by (auto simp: isTrustedPanelMessage_def Let_def originPinned_def
      split: if_splits option.splits prod.splits)

lemma isTrustedPanelMessage_other_window:
  assumes "panelOriginConfirmed st" and "trustedPanelWindow st = Some w"
    and "evSource event = Some s" and "s \<noteq> w"
  shows "isTrustedPanelMessage cfg event st = (False, st)"
  using assms
  by (auto simp: isTrustedPanelMessage_def Let_def split: if_splits option.splits prod.splits)


text \<open>What the bridge does after the trust check keeps the trust variables.\<close>

lemma broadcastSelection_trust:
  "trustedPanelOrigin (broadcastSelection cfg s st) = trustedPanelOrigin st"
  "panelOriginConfirmed (broadcastSelection cfg s st) = panelOriginConfirmed st"
  "trustedPanelWindow (broadcastSelection cfg s st) = trustedPanelWindow st"
  using broadcastSelection_frame[of st cfg s "\<lambda>s. True"] by (simp_all add: sameTrust_def)

lemma fetchAndBroadcastSelection_trust:
  "trustedPanelOrigin (fetchAndBroadcastSelection cfg pf page rt st) = trustedPanelOrigin st"
  "panelOriginConfirmed (fetchAndBroadcastSelection cfg pf page rt st) = panelOriginConfirmed st"
  "trustedPanelWindow (fetchAndBroadcastSelection cfg pf page rt st) = trustedPanelWindow st"
  using fetchAndBroadcastSelection_sameTrust[of st cfg pf page rt] by (simp_all add: sameTrust_def)

lemma fetchCurrentSelection_trust:
  "trustedPanelOrigin (snd (fetchCurrentSelection cfg pf page rt st)) = trustedPanelOrigin st"
  "panelOriginConfirmed (snd (fetchCurrentSelection cfg pf page rt st)) = panelOriginConfirmed st"
  "trustedPanelWindow (snd (fetchCurrentSelection cfg pf page rt st)) = trustedPanelWindow st"
  using fetchCurrentSelection_sameTrust[of st cfg pf page rt] by (simp_all add: sameTrust_def)

lemma maybeActivateDevMock_trust:
  "trustedPanelOrigin (maybeActivateDevMock cfg reason st) = trustedPanelOrigin st"
  "panelOriginConfirmed (maybeActivateDevMock cfg reason st) = panelOriginConfirmed st"
  "trustedPanelWindow (maybeActivateDevMock cfg reason st) = trustedPanelWindow st"
  using maybeActivateDevMock_sameTrust[of st cfg reason] by (simp_all add: sameTrust_def)

lemma postToPanel_snd:
  "trustedPanelOrigin (snd (postToPanel cfg target s originOverride st)) = trustedPanelOrigin st"
  "panelOriginConfirmed (snd (postToPanel cfg target s originOverride st)) = panelOriginConfirmed st"
  "trustedPanelWindow (snd (postToPanel cfg target s originOverride st)) = trustedPanelWindow st"
  "latestSelectionState (snd (postToPanel cfg target s originOverride st)) = latestSelectionState st"
  "devMockActive (snd (postToPanel cfg target s originOverride st)) = devMockActive st"
  "subscribers (snd (postToPanel cfg target s originOverride st)) = subscribers st"
proof -
  obtain ok st' where p: "postToPanel cfg target s originOverride st = (ok, st')"
    by (cases "postToPanel cfg target s originOverride st")
  note f = postToPanel_frame[OF p]
  show "trustedPanelOrigin (snd (postToPanel cfg target s originOverride st)) = trustedPanelOrigin st"
    "panelOriginConfirmed (snd (postToPanel cfg target s originOverride st)) = panelOriginConfirmed st"
    "trustedPanelWindow (snd (postToPanel cfg target s originOverride st)) = trustedPanelWindow st"
    "latestSelectionState (snd (postToPanel cfg target s originOverride st)) = latestSelectionState st"
    "devMockActive (snd (postToPanel cfg target s originOverride st)) = devMockActive st"
    "subscribers (snd (postToPanel cfg target s originOverride st)) = subscribers st"
    using f p by (simp_all add: sameTrust_def)
qed

lemma registerSubscriber_snd:
  "trustedPanelOrigin (snd (registerSubscriber event st)) = trustedPanelOrigin st"
  "panelOriginConfirmed (snd (registerSubscriber event st)) = panelOriginConfirmed st"
  "latestSelectionState (snd (registerSubscriber event st)) = latestSelectionState st"
  "devMockActive (snd (registerSubscriber event st)) = devMockActive st"
  "trustedPanelWindow st = Some w \<Longrightarrow> trustedPanelWindow (snd (registerSubscriber event st)) = Some w"
proof -
  obtain source st' where r: "registerSubscriber event st = (source, st')"
    by (cases "registerSubscriber event st")
  note f = registerSubscriber_frame[OF r, of w]
  show "trustedPanelOrigin (snd (registerSubscriber event st)) = trustedPanelOrigin st"
    "panelOriginConfirmed (snd (registerSubscriber event st)) = panelOriginConfirmed st"
    "latestSelectionState (snd (registerSubscriber event st)) = latestSelectionState st"
    "devMockActive (snd (registerSubscriber event st)) = devMockActive st"
    using f r by simp_all
  show "trustedPanelWindow (snd (registerSubscriber event st)) = Some w"
    if "trustedPanelWindow st = Some w"
    using f r that by simp
qed

lemmas trust_keeps = broadcastSelection_trust fetchAndBroadcastSelection_trust
  fetchCurrentSelection_trust maybeActivateDevMock_trust postToPanel_snd(1-3)
  registerSubscriber_snd(1,2,5)

lemma respondToPanel_trust:
  "trustedPanelOrigin (respondToPanel cfg pf page rt event st) = trustedPanelOrigin st"
  "panelOriginConfirmed (respondToPanel cfg pf page rt event st) = panelOriginConfirmed st"
  "trustedPanelWindow st = Some w \<Longrightarrow>
   trustedPanelWindow (respondToPanel cfg pf page rt event st) = Some w"
  by (simp_all add: respondToPanel_def Let_def case_prod_beta trust_keeps split: option.splits)

lemma handlePanelMessage_outcome:
  "handlePanelMessage cfg pf page rt event st =
     (if fst (isTrustedPanelMessage cfg event st)
      then respondToPanel cfg pf page rt event (snd (isTrustedPanelMessage cfg event st))
      else snd (isTrustedPanelMessage cfg event st))"
  by (cases "isTrustedPanelMessage cfg event st") (auto simp: handlePanelMessage_def)

lemma handlePanelMessage_pins:
  assumes "\<not> panelOriginConfirmed st" and "evOrigin event \<noteq> []"
    and "isAllowedPanelOrigin cfg (evOrigin event)"
  shows "originPinned (evOrigin event) (handlePanelMessage cfg pf page rt event st)"
  using isTrustedPanelMessage_pins[OF assms]
  by (simp add: handlePanelMessage_outcome originPinned_def respondToPanel_trust)

lemma handlePanelMessage_pinned:
  assumes "originPinned origin st"
  shows "originPinned origin (handlePanelMessage cfg pf page rt event st)"
  using isTrustedPanelMessage_pinned(1)[OF assms, of cfg event]
  by (simp add: handlePanelMessage_outcome originPinned_def respondToPanel_trust)

lemma handlePanelMessage_window:
  assumes "trustedPanelWindow st = Some w"
  shows "trustedPanelWindow (handlePanelMessage cfg pf page rt event st) = Some w"
proof -
  obtain ok st' where t: "isTrustedPanelMessage cfg event st = (ok, st')"
    by (cases "isTrustedPanelMessage cfg event st")
  from isTrustedPanelMessage_frame[OF t, of w] assms have "trustedPanelWindow st' = Some w"
    by simp
  with t show ?thesis
    by (simp add: handlePanelMessage_outcome respondToPanel_trust)
qed

lemma handlePanelMessage_confirmed:
  assumes "panelOriginConfirmed st"
  shows "panelOriginConfirmed (handlePanelMessage cfg pf page rt event st)"
  using assms
  by (auto simp: handlePanelMessage_outcome respondToPanel_trust isTrustedPanelMessage_def Let_def
      split: if_splits option.splits prod.splits)

lemma bridgeSession_step:
  "bridgeSession cfg pf page (messages @ [(rt, event)]) st =
     handlePanelMessage cfg pf page rt event (bridgeSession cfg pf page messages st)"
  by (simp add: bridgeSession_def)

lemma bridgeSession_pinned:
  "originPinned origin st \<Longrightarrow> originPinned origin (bridgeSession cfg pf page messages st)"
  by (induction messages rule: rev_induct)
     (auto simp: bridgeSession_step handlePanelMessage_pinned, simp add: bridgeSession_def)

lemma bridgeSession_window:
  "panelOriginConfirmed st \<Longrightarrow> trustedPanelWindow st = Some w \<Longrightarrow>
   panelOriginConfirmed (bridgeSession cfg pf page messages st) \<and>
   trustedPanelWindow (bridgeSession cfg pf page messages st) = Some w"
  by (induction messages rule: rev_induct)
     (auto simp: bridgeSession_step handlePanelMessage_window handlePanelMessage_confirmed,
      simp_all add: bridgeSession_def)




lemma postToPanel_posts_snd:
  "p (coalesce s Null) \<Longrightarrow> postsOnly p st (snd (postToPanel cfg target (coalesce s Null) origin st))"
  by (rule postToPanel_posts)























section \<open>Trusted origins\<close>

text \<open>The panel's side of the trust check.\<close>

lemma handleSelectionMessage_outcome:
  "handleSelectionMessage cfg pf event st =
     (if fst (isTrustedDesignerMessage cfg event st) \<and>
         optProp (evData event) ''type'' = Str SELECTION_MESSAGE_TYPE
      then applySelectionState cfg pf
             (js_or (getProp (evData event) ''selection'')
                (js_or (getProp (evData event) ''element'') Null))
             (snd (isTrustedDesignerMessage cfg event st))
      else snd (isTrustedDesignerMessage cfg event st))"
  by (cases "isTrustedDesignerMessage cfg event st")
     (auto simp: handleSelectionMessage_def Let_def split: bool.splits)

lemma handleSelectionMessage_trust:
  "trustedDesignerOrigin (handleSelectionMessage cfg pf event st) =
     trustedDesignerOrigin (snd (isTrustedDesignerMessage cfg event st))"
  "designerOriginConfirmed (handleSelectionMessage cfg pf event st) =
     designerOriginConfirmed (snd (isTrustedDesignerMessage cfg event st))"
  by (simp_all add: handleSelectionMessage_outcome applySelectionState_keeps)

lemma isTrustedDesignerMessage_pins:
  assumes "\<not> designerOriginConfirmed st" and "truthy (eventOrigin event)"
    and "isAllowedHostOrigin cfg (eventOrigin event)"
  shows "trustedDesignerOrigin (snd (isTrustedDesignerMessage cfg event st)) = eventOrigin event"
    and "designerOriginConfirmed (snd (isTrustedDesignerMessage cfg event st))"
  using assms
  by (auto simp: isTrusted_decision designerTrust_def Let_def split: option.splits prod.splits)

lemma isTrustedDesignerMessage_pinned:
  assumes "designerOriginConfirmed st"
  shows "trustedDesignerOrigin (snd (isTrustedDesignerMessage cfg event st)) = trustedDesignerOrigin st"
    and "designerOriginConfirmed (snd (isTrustedDesignerMessage cfg event st))"
    and "eventOrigin event \<noteq> trustedDesignerOrigin st \<Longrightarrow>
         isTrustedDesignerMessage cfg event st = (False, st)"
    and "designerMessageWindow st = Some w \<Longrightarrow> evSource event = Some s \<Longrightarrow> s \<noteq> w \<Longrightarrow>
         isTrustedDesignerMessage cfg event st = (False, st)"
  using assms
  by (auto simp: isTrustedDesignerMessage_def Let_def split: option.splits prod.splits)


lemma bridgeLoaded_trust:
  "trustedPanelOrigin (bridgeLoaded cfg probe) = originOr (scriptOrigin cfg) None"
  "panelOriginConfirmed (bridgeLoaded cfg probe) = (originOr (scriptOrigin cfg) None \<noteq> None)"
  by (simp_all add: bridgeLoaded_def Let_def maybeActivateDevMock_trust)
     (simp_all add: initialBridge_def)

lemma handlePanelMessage_dropped:
  "isTrustedPanelMessage cfg event st = (False, st) \<Longrightarrow>
   handlePanelMessage cfg pf page rt event st = st"
  by (simp add: handlePanelMessage_outcome)

lemma handlePanelMessage_pins_window:
  assumes "fst (isTrustedPanelMessage cfg event st)" and "trustedPanelWindow st = None"
    and "evSource event = Some s" and "canPostMessage s"
  shows "trustedPanelWindow (handlePanelMessage cfg pf page rt event st) = Some s"
proof -
  from assms have "trustedPanelWindow (snd (isTrustedPanelMessage cfg event st)) = Some s"
    by (auto simp: isTrustedPanelMessage_def Let_def split: if_splits)
  with assms(1) show ?thesis
    by (simp add: handlePanelMessage_outcome respondToPanel_trust)
qed

lemma handleSelectionMessage_dropped:
  "isTrustedDesignerMessage cfg event st = (False, st) \<Longrightarrow>
   handleSelectionMessage cfg pf event st = st"
  by (simp add: handleSelectionMessage_outcome)

lemma hosted_run:
  "\<not> panelOriginConfirmed (bridgeLoaded hostedConfig True)"
  "evOrigin subscribeMessage \<noteq> []"
  "isAllowedPanelOrigin hostedConfig (evOrigin subscribeMessage)"
  "evOrigin otherOriginMessage \<noteq> evOrigin subscribeMessage"
  "subscribers subscribedBridge = [panelWindow]"
  by code_simp+

text \<open>
  C1. When the bridge loads, the origin of its own script is pinned if it is known;
  otherwise nothing is pinned, and the first message with an acceptable origin pins that
  origin. The first trusted message whose source window can be posted to pins that
  window, if none is pinned. A pinned origin stays pinned for the rest of the session, and
  a message from another origin is dropped: the bridge is left exactly as it was,
  subscribers and latest selection state included. The same holds for a pinned window
  and a message from another source window. In the panel, the first message with an
  acceptable origin confirms that origin; once an origin is confirmed it stays, and a
  message from another origin, or from a source window other than the Designer's, leaves
  the panel exactly as it was.
\<close>

theorem trusted_origin_pinned:
  "(scriptOrigin cfg = Some origin \<and> origin \<noteq> [] \<longrightarrow>
      originPinned origin (bridgeLoaded cfg designerScript)) \<and>
   (originOr (scriptOrigin cfg) None = None \<longrightarrow>
      \<not> panelOriginConfirmed (bridgeLoaded cfg designerScript)) \<and>
   (\<not> panelOriginConfirmed st \<and> evOrigin event \<noteq> [] \<and>
    isAllowedPanelOrigin cfg (evOrigin event) \<longrightarrow>
      originPinned (evOrigin event) (handlePanelMessage cfg pf page rt event st)) \<and>
   (fst (isTrustedPanelMessage cfg event st) \<and> trustedPanelWindow st = None \<and>
    evSource event = Some s \<and> canPostMessage s \<longrightarrow>
      trustedPanelWindow (handlePanelMessage cfg pf page rt event st) = Some s) \<and>
   (originPinned origin st \<longrightarrow>
      originPinned origin (bridgeSession cfg pf page messages st) \<and>
      (evOrigin later \<noteq> origin \<longrightarrow>
         handlePanelMessage cfg pf page rt later (bridgeSession cfg pf page messages st) =
           bridgeSession cfg pf page messages st)) \<and>
   (panelOriginConfirmed st \<and> trustedPanelWindow st = Some w \<longrightarrow>
      trustedPanelWindow (bridgeSession cfg pf page messages st) = Some w \<and>
      (evSource later = Some s \<and> s \<noteq> w \<longrightarrow>
         handlePanelMessage cfg pf page rt later (bridgeSession cfg pf page messages st) =
           bridgeSession cfg pf page messages st)) \<and>
   (\<not> designerOriginConfirmed panel \<and> truthy (eventOrigin received) \<and>
    isAllowedHostOrigin panelConfig (eventOrigin received) \<longrightarrow>
      designerOriginConfirmed (handleSelectionMessage panelConfig pf received panel) \<and>
      trustedDesignerOrigin (handleSelectionMessage panelConfig pf received panel) =
        eventOrigin received) \<and>
   (designerOriginConfirmed panel \<longrightarrow>
      designerOriginConfirmed (handleSelectionMessage panelConfig pf received panel) \<and>
      trustedDesignerOrigin (handleSelectionMessage panelConfig pf received panel) =
        trustedDesignerOrigin panel \<and>
      (eventOrigin received \<noteq> trustedDesignerOrigin panel \<longrightarrow>
         handleSelectionMessage panelConfig pf received panel = panel) \<and>
      (designerMessageWindow panel = Some designerWindow \<and> evSource received = Some s \<and>
       s \<noteq> designerWindow \<longrightarrow>
         handleSelectionMessage panelConfig pf received panel = panel))"
proof -
  have load: "originPinned origin (bridgeLoaded cfg designerScript)"
    if "scriptOrigin cfg = Some origin \<and> origin \<noteq> []"
    using that by (simp add: originPinned_def bridgeLoaded_trust)
  have unpinned: "\<not> panelOriginConfirmed (bridgeLoaded cfg designerScript)"
    if "originOr (scriptOrigin cfg) None = None"
    using that by (simp add: bridgeLoaded_trust)
  have first: "originPinned (evOrigin event) (handlePanelMessage cfg pf page rt event st)"
    if "\<not> panelOriginConfirmed st \<and> evOrigin event \<noteq> [] \<and>
        isAllowedPanelOrigin cfg (evOrigin event)"
    using that handlePanelMessage_pins by blast
  have window: "trustedPanelWindow (handlePanelMessage cfg pf page rt event st) = Some s"
    if "fst (isTrustedPanelMessage cfg event st) \<and> trustedPanelWindow st = None \<and>
        evSource event = Some s \<and> canPostMessage s"
    using that handlePanelMessage_pins_window by blast
  have kept: "originPinned origin (bridgeSession cfg pf page messages st) \<and>
      (evOrigin later \<noteq> origin \<longrightarrow>
         handlePanelMessage cfg pf page rt later (bridgeSession cfg pf page messages st) =
           bridgeSession cfg pf page messages st)"
    if p: "originPinned origin st"
  proof -
    note q = bridgeSession_pinned[OF p, where cfg = cfg and pf = pf and page = page and messages = messages]
    from isTrustedPanelMessage_pinned(2)[OF q] handlePanelMessage_dropped q
    show ?thesis by blast
  qed
  have kept_window: "trustedPanelWindow (bridgeSession cfg pf page messages st) = Some w \<and>
      (evSource later = Some s \<and> s \<noteq> w \<longrightarrow>
         handlePanelMessage cfg pf page rt later (bridgeSession cfg pf page messages st) =
           bridgeSession cfg pf page messages st)"
    if p: "panelOriginConfirmed st \<and> trustedPanelWindow st = Some w"
  proof -
    from p bridgeSession_window[where st = st and w = w and cfg = cfg and pf = pf and page = page
        and messages = messages]
    have q: "panelOriginConfirmed (bridgeSession cfg pf page messages st)"
      "trustedPanelWindow (bridgeSession cfg pf page messages st) = Some w"
      by blast+
    from isTrustedPanelMessage_other_window[OF q] handlePanelMessage_dropped q
    show ?thesis by blast
  qed
  have panel_first: "designerOriginConfirmed (handleSelectionMessage panelConfig pf received panel) \<and>
      trustedDesignerOrigin (handleSelectionMessage panelConfig pf received panel) =
        eventOrigin received"
    if "\<not> designerOriginConfirmed panel \<and> truthy (eventOrigin received) \<and>
        isAllowedHostOrigin panelConfig (eventOrigin received)"
    using that isTrustedDesignerMessage_pins[where st = panel and event = received and cfg = panelConfig]
    by (simp add: handleSelectionMessage_trust)
  have panel_kept: "designerOriginConfirmed (handleSelectionMessage panelConfig pf received panel) \<and>
      trustedDesignerOrigin (handleSelectionMessage panelConfig pf received panel) =
        trustedDesignerOrigin panel \<and>
      (eventOrigin received \<noteq> trustedDesignerOrigin panel \<longrightarrow>
         handleSelectionMessage panelConfig pf received panel = panel) \<and>
      (designerMessageWindow panel = Some designerWindow \<and> evSource received = Some s \<and>
       s \<noteq> designerWindow \<longrightarrow>
         handleSelectionMessage panelConfig pf received panel = panel)"
    if c: "designerOriginConfirmed panel"
    using isTrustedDesignerMessage_pinned(1-3)[OF c, where cfg = panelConfig and event = received]
      isTrustedDesignerMessage_pinned(4)[OF c, where cfg = panelConfig and event = received
        and w = designerWindow and s = s]
      handleSelectionMessage_dropped[where cfg = panelConfig and event = received and st = panel
        and pf = pf]
    by (simp add: handleSelectionMessage_trust)
  from load unpinned first window kept kept_window panel_first panel_kept
  show ?thesis by blast
qed


theorem trusted_origin_pinned_witness:
  "\<not> panelOriginConfirmed (bridgeLoaded hostedConfig True) \<and>
   evOrigin subscribeMessage \<noteq> [] \<and>
   isAllowedPanelOrigin hostedConfig (evOrigin subscribeMessage) \<and>
   originPinned (evOrigin subscribeMessage) subscribedBridge \<and>
   evOrigin otherOriginMessage \<noteq> evOrigin subscribeMessage \<and>
   subscribers subscribedBridge = [panelWindow] \<and>
   handlePanelMessage hostedConfig parsesNothing emptyPage None otherOriginMessage subscribedBridge =
     subscribedBridge"
proof -
  from trusted_origin_pinned[where st = "bridgeLoaded hostedConfig True" and event = subscribeMessage
      and cfg = hostedConfig and pf = parsesNothing and page = emptyPage and rt = None]
    hosted_run
  have "originPinned (evOrigin subscribeMessage)
          (handlePanelMessage hostedConfig parsesNothing emptyPage None subscribeMessage
             (bridgeLoaded hostedConfig True))"
    by blast
  then have pinned: "originPinned (evOrigin subscribeMessage) subscribedBridge"
    by (simp only: subscribedBridge_def)
  from trusted_origin_pinned[where st = subscribedBridge and origin = "evOrigin subscribeMessage"
      and messages = "[]" and later = otherOriginMessage
      and cfg = hostedConfig and pf = parsesNothing and page = emptyPage and rt = None]
    pinned hosted_run(4)
  have "handlePanelMessage hostedConfig parsesNothing emptyPage None otherOriginMessage
          (bridgeSession hostedConfig parsesNothing emptyPage [] subscribedBridge) =
        bridgeSession hostedConfig parsesNothing emptyPage [] subscribedBridge"
    by blast
  then have "handlePanelMessage hostedConfig parsesNothing emptyPage None otherOriginMessage
      subscribedBridge = subscribedBridge"
    by (simp add: bridgeSession_def)
  with pinned hosted_run show ?thesis by blast
qed

text \<open>
  The first message with an acceptable origin does not always pin its origin. A bridge
  whose script origin is known drops a first message from an origin under
  \<open>webflow-ext.com\<close>, and a later message from the script origin, another origin and
  another window, is accepted: its window becomes a subscriber.
\<close>

theorem trusted_origin_not_first_counterexample:
  "evOrigin subscribeMessage \<noteq> [] \<and>
   isAllowedPanelOrigin servedConfig (evOrigin subscribeMessage) \<and>
   \<not> originPinned (evOrigin subscribeMessage)
     (bridgeSession servedConfig parsesNothing emptyPage [(None, subscribeMessage)]
        (bridgeLoaded servedConfig True)) \<and>
   subscribers
     (bridgeSession servedConfig parsesNothing emptyPage [(None, subscribeMessage)]
        (bridgeLoaded servedConfig True)) = [] \<and>
   evOrigin otherOriginMessage \<noteq> evOrigin subscribeMessage \<and>
   evSource otherOriginMessage \<noteq> evSource subscribeMessage \<and>
   subscribers
     (bridgeSession servedConfig parsesNothing emptyPage
        [(None, subscribeMessage), (None, otherOriginMessage)]
        (bridgeLoaded servedConfig True)) = [otherWindow]"
  by code_simp

end
